theory Spec2Isabelle
  imports Main
begin

section \<open>Go strings and the library functions the program calls\<close>

text \<open>
  A Go string is a sequence of bytes, and \<open>len\<close> counts bytes; it is modelled as
  \<^typ>\<open>string\<close>, a list of 8-bit characters. The functions of this section are the
  ones of Go's \<open>strings\<close> and \<open>path/filepath\<close> packages (Unix flavour) that the
  program calls, written after their documented behaviour.
\<close>

text \<open>\<open>strings.HasPrefix\<close> and \<open>strings.HasSuffix\<close>.\<close>

definition HasPrefix :: "string \<Rightarrow> string \<Rightarrow> bool" where
  "HasPrefix s pre = (length pre \<le> length s \<and> take (length pre) s = pre)"

definition HasSuffix :: "string \<Rightarrow> string \<Rightarrow> bool" where
  "HasSuffix s suf = (length suf \<le> length s \<and> drop (length s - length suf) s = suf)"

text \<open>
  \<open>strings.ToLower\<close> maps every Unicode upper-case letter to its lower case, by
  tables that are not part of the program; it is a field of the environment below. On a
  string of ASCII bytes it is \<open>lowerAscii\<close>, which maps \<open>A\<close>..\<open>Z\<close> and leaves every
  other byte alone.
\<close>

definition lowerByte :: "char \<Rightarrow> char" where
  "lowerByte c =
     (case map_of (zip ''ABCDEFGHIJKLMNOPQRSTUVWXYZ'' ''abcdefghijklmnopqrstuvwxyz'') c of
        Some l \<Rightarrow> l
      | None \<Rightarrow> c)"

definition lowerAscii :: "string \<Rightarrow> string" where
  "lowerAscii s = map lowerByte s"

text \<open>\<open>strings.ReplaceAll s old new\<close> for a one-byte \<open>old\<close> and \<open>new\<close>.\<close>

definition ReplaceAll :: "string \<Rightarrow> char \<Rightarrow> char \<Rightarrow> string" where
  "ReplaceAll s old new = map (\<lambda>c. if c = old then new else c) s"

text \<open>\<open>strings.Trim s cutset\<close> for a one-byte cutset.\<close>

definition Trim :: "string \<Rightarrow> char \<Rightarrow> string" where
  "Trim s c = rev (dropWhile (\<lambda>x. x = c) (rev (dropWhile (\<lambda>x. x = c) s)))"

text \<open>\<open>strings.Split s sep\<close> for a one-byte separator: always at least one piece.\<close>

fun Split :: "string \<Rightarrow> char \<Rightarrow> string list" where
  "Split [] sep = [[]]"
| "Split (c # cs) sep =
     (if c = sep then [] # Split cs sep
      else (case Split cs sep of
              [] \<Rightarrow> [[c]]
            | p # ps \<Rightarrow> (c # p) # ps))"

text \<open>\<open>strings.Join elems sep\<close>.\<close>

fun JoinStrings :: "string list \<Rightarrow> string \<Rightarrow> string" where
  "JoinStrings [] sep = []"
| "JoinStrings [e] sep = e"
| "JoinStrings (e # es) sep = e @ sep @ JoinStrings es sep"

subsection \<open>path/filepath\<close>

text \<open>
  \<open>filepath.Clean\<close>: empty and \<open>.\<close> elements are dropped, an inner \<open>..\<close> removes
  the element before it, a \<open>..\<close> at the start of a rooted path is dropped and kept at the
  start of a relative one; the empty result is \<open>.\<close>. The elements kept so far are
  held in reverse.
\<close>

definition cleanStep :: "bool \<Rightarrow> string list \<Rightarrow> string \<Rightarrow> string list" where
  "cleanStep rooted out el =
     (if el = [] \<or> el = ''.'' then out
      else if el = ''..'' then
        (case out of
           [] \<Rightarrow> if rooted then [] else [''..'']
         | el0 # below \<Rightarrow> if el0 = ''..'' then ''..'' # out else below)
      else el # out)"

definition Clean :: "string \<Rightarrow> string" where
  "Clean p =
     (if p = [] then ''.''
      else
        let rooted = (hd p = CHR ''/'');
            out = rev (foldl (cleanStep rooted) [] (Split p (CHR ''/'')));
            s = (if rooted then ''/'' else []) @ JoinStrings out ''/''
        in if s = [] then ''.'' else s)"

text \<open>\<open>filepath.Join\<close> of two elements: empty elements are ignored.\<close>

definition Join :: "string \<Rightarrow> string \<Rightarrow> string" where
  "Join a b =
     (if a \<noteq> [] then Clean (a @ ''/'' @ b)
      else if b \<noteq> [] then Clean b
      else [])"

text \<open>\<open>filepath.Base\<close>: the last element, trailing slashes removed first.\<close>

definition Base :: "string \<Rightarrow> string" where
  "Base p =
     (if p = [] then ''.''
      else
        let q = rev (dropWhile (\<lambda>c. c = CHR ''/'') (rev p));
            b = rev (takeWhile (\<lambda>c. c \<noteq> CHR ''/'') (rev q))
        in if b = [] then ''/'' else b)"

text \<open>\<open>filepath.Dir\<close>: everything up to the last slash, cleaned.\<close>

definition Dir :: "string \<Rightarrow> string" where
  "Dir p = Clean (rev (dropWhile (\<lambda>c. c \<noteq> CHR ''/'') (rev p)))"

definition IsAbs :: "string \<Rightarrow> bool" where
  "IsAbs p = HasPrefix p ''/''"


section \<open>The wizard's data\<close>

datatype step =
    stepFileBrowser
  | stepAppImageDir
  | stepAppName
  | stepDescription
  | stepIcon
  | stepIconBrowser
  | stepCategories
  | stepProcessing
  | stepComplete
  | stepError

record fileEntry =
  name :: string
  path :: string
  isDir :: bool

text \<open>
  The struct \<open>model\<close>. Of a \<open>fuzzy.Match\<close> the program reads the field \<open>Index\<close>
  only, so \<open>fuzzyMatches\<close> holds the indices.
\<close>

record model =
  currentStep :: step
  appImagePath :: string
  appImageDir :: string
  appName :: string
  description :: string
  iconPath :: string
  categories :: string
  input :: string
  error :: string
  message :: string
  configPath :: string
  firstTimeSetup :: bool
  desktopFilePath :: string
  currentDir :: string
  files :: "fileEntry list"
  allFiles :: "fileEntry list"
  cursor :: int
  searchMode :: bool
  searchQuery :: string
  fuzzyMatches :: "int list"

text \<open>Messages delivered to \<open>Update\<close>: a key (by its \<open>String()\<close>), the pipeline's
  completion with its error (\<open>None\<close> is Go's \<open>nil\<close>), or any other message.\<close>

datatype msg =
    KeyMsg string
  | installCompleteMsg "string option"
  | OtherMsg

text \<open>
  Commands returned to the runtime: \<open>nil\<close>, \<open>tea.Quit\<close>, a closure that only
  returns an \<open>installCompleteMsg\<close>, and the closure of \<open>install\<close> that copies through
  \<open>pkexec\<close> (holding the temporary file, the registered file and the registration
  directory it captured).
\<close>

datatype cmd =
    NoCmd
  | Quit
  | Report "string option"
  | PkexecCopy string string string

text \<open>A run-time panic of the Go program.\<close>

datatype panic = IndexOutOfRange

section \<open>The environment\<close>

text \<open>
  What the operating system and the libraries answer. An error is its
  text; for a call that returns only an error, \<open>None\<close> is success.
  \<open>UserHomeDir\<close> is the path \<open>os.UserHomeDir\<close> returns (the program ignores
  its error); \<open>StatNotExist p\<close> is \<open>os.IsNotExist\<close> of the error of \<open>os.Stat p\<close>;
  \<open>LookPath c\<close> holds when \<open>exec.LookPath c\<close> finds the command; \<open>Run argv\<close>
  is \<open>exec.Command(argv...).Run()\<close>; \<open>FindFrom q labels\<close> is the \<open>Index\<close> of each
  match that \<open>fuzzy.FindFrom\<close> returns, best match first; \<open>ToLower\<close> is
  \<open>strings.ToLower\<close>.
\<close>

record dirEntry =
  Name :: string
  IsDir :: bool

record world =
  UserHomeDir :: string
  Getwd :: "string + string"
  TempDir :: string
  StatNotExist :: "string \<Rightarrow> bool"
  ReadFile :: "string \<Rightarrow> string + string"
  ReadDir :: "string \<Rightarrow> string + dirEntry list"
  MkdirAll :: "string \<Rightarrow> nat \<Rightarrow> string option"
  WriteFile :: "string \<Rightarrow> string \<Rightarrow> nat \<Rightarrow> string option"
  Rename :: "string \<Rightarrow> string \<Rightarrow> string option"
  Chmod :: "string \<Rightarrow> nat \<Rightarrow> string option"
  LookPath :: "string \<Rightarrow> bool"
  Run :: "string list \<Rightarrow> string option"
  FindFrom :: "string \<Rightarrow> string list \<Rightarrow> int list"
  ToLower :: "string \<Rightarrow> string"

text \<open>The changes a handler made to the file system, in the order it made them
  (only calls that succeeded are listed).\<close>

datatype effect =
    MadeDir string nat
  | Wrote string string nat
  | Moved string string
  | ModeSet string nat
  | Ran "string list"

text \<open>\<open>filepath.Abs\<close>.\<close>

definition Abs :: "world \<Rightarrow> string \<Rightarrow> string + string" where
  "Abs w p =
     (if IsAbs p then Inr (Clean p)
      else (case Getwd w of
              Inl e \<Rightarrow> Inl e
            | Inr wd \<Rightarrow> Inr (Join wd p)))"

text \<open>
  \<open>fmt.Errorf\<close> with a format that ends in \<open>%w\<close>: the text before the verb, then the
  wrapped error's text, or \<open>%!w(<nil>)\<close> for a nil error.
\<close>

definition Errorf_w :: "string \<Rightarrow> string option \<Rightarrow> string" where
  "Errorf_w text err = text @ (case err of None \<Rightarrow> ''%!w(<nil>)'' | Some e \<Rightarrow> e)"

text \<open>File modes, written in octal in the source: \<open>0755\<close> and \<open>0644\<close>.\<close>

definition mode0755 :: nat where
  "mode0755 = 7 * 64 + 5 * 8 + 5"

definition mode0644 :: nat where
  "mode0644 = 6 * 64 + 4 * 8 + 4"

section \<open>Configuration file\<close>

text \<open>The loop of \<open>loadConfig\<close> over the lines of the file.\<close>

fun findAppImageDir :: "string list \<Rightarrow> string option" where
  "findAppImageDir [] = None"
| "findAppImageDir (line # rest) =
     (if HasPrefix line ''APPIMAGE_DIR=''
      then Some (Trim (drop (length ''APPIMAGE_DIR='') line) (CHR 0x22))
      else findAppImageDir rest)"

definition loadConfig :: "world \<Rightarrow> string \<Rightarrow> string + string" where
  "loadConfig w p =
     (case ReadFile w p of
        Inl e \<Rightarrow> Inl e
      | Inr data \<Rightarrow>
          (case findAppImageDir (Split data (CHR 0x0A)) of
             Some dir \<Rightarrow> Inr dir
           | None \<Rightarrow> Inl ''APPIMAGE_DIR not found in config''))"

definition saveConfig :: "world \<Rightarrow> string \<Rightarrow> string \<Rightarrow> string option \<times> effect list" where
  "saveConfig w p dir =
     (let dirPath = Dir p in
      case MkdirAll w dirPath mode0755 of
        Some e \<Rightarrow> (Some e, [])
      | None \<Rightarrow>
          (let content = ''APPIMAGE_DIR='' @ [CHR 0x22] @ dir @ [CHR 0x22, CHR 0x0A] in
           case WriteFile w p content mode0644 of
             Some e \<Rightarrow> (Some e, [MadeDir dirPath mode0755])
           | None \<Rightarrow> (None, [MadeDir dirPath mode0755, Wrote p content mode0644])))"

text \<open>
  The block that \<open>initialModel\<close> and the file branch of \<open>handleEnter\<close> both carry:
  first-time setup when the configuration file does not exist, else its directory, else
  the error step.
\<close>

definition checkConfig :: "world \<Rightarrow> model \<Rightarrow> model" where
  "checkConfig w m =
     (if StatNotExist w (configPath m)
      then m\<lparr>firstTimeSetup := True, currentStep := stepAppImageDir,
             input := Join (UserHomeDir w) ''Applications''\<rparr>
      else (case loadConfig w (configPath m) of
              Inr dir \<Rightarrow> m\<lparr>appImageDir := dir, currentStep := stepAppName\<rparr>
            | Inl e \<Rightarrow> m\<lparr>currentStep := stepError,
                            error := ''Failed to load config: '' @ e\<rparr>))"

section \<open>The file browser\<close>

definition isImageFile :: "world \<Rightarrow> string \<Rightarrow> bool" where
  "isImageFile w nm =
     (let lower = ToLower w nm;
          extensions = [''.png'', ''.jpg'', ''.jpeg'', ''.svg'', ''.ico'', ''.xpm'',
                        ''.bmp'', ''.gif'', ''.webp'']
      in list_ex (\<lambda>ext. HasSuffix lower ext) extensions)"

text \<open>The loop of \<open>loadDirectoryWithFilter\<close> over the entries read: the entries it
  appends, in order.\<close>

fun listEntries :: "world \<Rightarrow> bool \<Rightarrow> string \<Rightarrow> dirEntry list \<Rightarrow> fileEntry list" where
  "listEntries w iconMode dir [] = []"
| "listEntries w iconMode dir (entry # entries) =
     (let fullPath = Join dir (Name entry) in
      if IsDir entry
      then \<lparr>name = Name entry, path = fullPath, isDir = True\<rparr> # listEntries w iconMode dir entries
      else if iconMode \<and> isImageFile w (Name entry)
      then \<lparr>name = Name entry, path = fullPath, isDir = False\<rparr> # listEntries w iconMode dir entries
      else if \<not> iconMode \<and> HasSuffix (ToLower w (Name entry)) ''.appimage''
      then \<lparr>name = Name entry, path = fullPath, isDir = False\<rparr> # listEntries w iconMode dir entries
      else listEntries w iconMode dir entries)"

definition loadDirectoryWithFilter :: "world \<Rightarrow> bool \<Rightarrow> model \<Rightarrow> model" where
  "loadDirectoryWithFilter w iconMode m =
     (let m1 = m\<lparr>allFiles := [], files := [], cursor := 0, searchMode := False,
                  searchQuery := [], fuzzyMatches := []\<rparr>
      in case ReadDir w (currentDir m1) of
           Inl e \<Rightarrow> m1\<lparr>error := ''Failed to read directory: '' @ e\<rparr>
         | Inr entries \<Rightarrow>
             (let m2 = (if currentDir m1 \<noteq> ''/''
                        then m1\<lparr>allFiles := allFiles m1 @
                                 [\<lparr>name = ''..'', path = Dir (currentDir m1), isDir = True\<rparr>]\<rparr>
                        else m1);
                  m3 = m2\<lparr>allFiles := allFiles m2 @ listEntries w iconMode (currentDir m2) entries\<rparr>
              in m3\<lparr>files := allFiles m3\<rparr>))"

definition loadDirectory :: "world \<Rightarrow> model \<Rightarrow> model" where
  "loadDirectory w m = loadDirectoryWithFilter w False m"

definition loadIconDirectory :: "world \<Rightarrow> model \<Rightarrow> model" where
  "loadIconDirectory w m = loadDirectoryWithFilter w True m"

text \<open>The loop of \<open>applyFuzzySearch\<close>: \<open>allFiles[match.Index]\<close> for each match; an
  index outside the slice panics.\<close>

fun matchedEntries :: "fileEntry list \<Rightarrow> int list \<Rightarrow> panic + fileEntry list" where
  "matchedEntries all [] = Inr []"
| "matchedEntries all (i # rest) =
     (if 0 \<le> i \<and> i < int (length all)
      then (case matchedEntries all rest of
              Inl p \<Rightarrow> Inl p
            | Inr es \<Rightarrow> Inr (all ! nat i # es))
      else Inl IndexOutOfRange)"

definition applyFuzzySearch :: "world \<Rightarrow> model \<Rightarrow> panic + model" where
  "applyFuzzySearch w m =
     (if searchQuery m = []
      then Inr (m\<lparr>files := allFiles m, fuzzyMatches := [], cursor := 0\<rparr>)
      else
        (let matches = FindFrom w (searchQuery m) (map name (allFiles m)) in
         case matchedEntries (allFiles m) matches of
           Inl p \<Rightarrow> Inl p
         | Inr es \<Rightarrow>
             (let m1 = m\<lparr>fuzzyMatches := matches, files := es\<rparr> in
              if cursor m1 \<ge> int (length (files m1))
              then Inr (m1\<lparr>cursor := max 0 (int (length (files m1)) - 1)\<rparr>)
              else Inr m1)))"

definition isFileBrowserStep :: "model \<Rightarrow> bool" where
  "isFileBrowserStep m = (currentStep m = stepFileBrowser \<or> currentStep m = stepIconBrowser)"

section \<open>The installation pipeline\<close>

text \<open>The launcher-metadata text that \<open>install\<close> builds for the destination file.\<close>

definition desktopEntry :: "model \<Rightarrow> string \<Rightarrow> string" where
  "desktopEntry m destFile =
     (let e0 = ''[Desktop Entry]\<newline>Name='' @ appName m @ ''\<newline>Exec='' @ destFile @
               ''\<newline>Type=Application\<newline>Categories='' @ categories m @ ''\<newline>'';
          e1 = (if description m \<noteq> [] then e0 @ ''Comment='' @ description m @ ''\<newline>'' else e0);
          e2 = (if iconPath m \<noteq> [] then e1 @ ''Icon='' @ iconPath m @ ''\<newline>'' else e1)
      in e2)"

definition desktopFilename :: "world \<Rightarrow> model \<Rightarrow> string" where
  "desktopFilename w m = ToLower w (ReplaceAll (appName m) (CHR '' '') (CHR ''-'')) @ ''.desktop''"

text \<open>
  \<open>install\<close> returns the command for the runtime; the model also returns the receiver
  as \<open>install\<close> leaves it (it sets \<open>desktopFilePath\<close>) and the changes made before
  returning. The error wrapped by the last \<open>return\<close> is the \<open>err\<close> of the function's
  first line, which is nil there.
\<close>

definition install :: "world \<Rightarrow> model \<Rightarrow> model \<times> cmd \<times> effect list" where
  "install w m =
     (case Abs w (appImagePath m) of
        Inl err \<Rightarrow> (m, Report (Some (Errorf_w ''failed to get absolute path: '' (Some err))), [])
      | Inr absPath \<Rightarrow>
          (let appImageFilename = Base absPath;
               destFile = Join (appImageDir m) appImageFilename
           in case (if absPath \<noteq> destFile then Rename w absPath destFile else None) of
                Some err \<Rightarrow> (m, Report (Some (Errorf_w ''failed to move file: '' (Some err))), [])
              | None \<Rightarrow>
                  (let moved = (if absPath \<noteq> destFile then [Moved absPath destFile] else [])
                   in case Chmod w destFile mode0755 of
                        Some err \<Rightarrow>
                          (m, Report (Some (Errorf_w ''failed to make executable: '' (Some err))), moved)
                      | None \<Rightarrow>
                          (let tmpDesktopFile = Join (TempDir w) (desktopFilename w m);
                               prepared = moved @ [ModeSet destFile mode0755]
                           in case WriteFile w tmpDesktopFile (desktopEntry m destFile) mode0644 of
                                Some err \<Rightarrow>
                                  (m, Report (Some (Errorf_w ''failed to create temp desktop entry: ''
                                                      (Some err))), prepared)
                              | None \<Rightarrow>
                                  (let desktopDir = ''/usr/share/applications'';
                                       m1 = m\<lparr>desktopFilePath := Join desktopDir (desktopFilename w m)\<rparr>;
                                       written = prepared @
                                         [Wrote tmpDesktopFile (desktopEntry m destFile) mode0644];
                                       lastReturn = Report (Some (Errorf_w
                                         (''Installation requires administrator privileges. '' @
                                          ''\<newline>\<newline> Rerun with sudo or pkexec.\<newline>'') None))
                                   in case Run w [''cp'', tmpDesktopFile, desktopFilePath m1] of
                                        Some errnoperm \<Rightarrow>
                                          if LookPath w ''pkexec''
                                          then (m1, PkexecCopy tmpDesktopFile (desktopFilePath m1)
                                                      desktopDir, written)
                                          else (m1, lastReturn, written)
                                      | None \<Rightarrow>
                                          (m1, lastReturn,
                                           written @ [Ran [''cp'', tmpDesktopFile,
                                                           desktopFilePath m1]]))))))"

text \<open>
  Running a command: the message it sends to \<open>Update\<close>, if any, and the changes it
  made. The \<open>pkexec\<close> closure also assigns \<open>message\<close> through its pointer to
  \<open>handleEnter\<close>'s local copy of the model, which nothing reads afterwards.
\<close>

definition runCmd :: "world \<Rightarrow> cmd \<Rightarrow> msg option \<times> effect list" where
  "runCmd w c =
     (case c of
        NoCmd \<Rightarrow> (None, [])
      | Quit \<Rightarrow> (None, [])
      | Report err \<Rightarrow> (Some (installCompleteMsg err), [])
      | PkexecCopy tmpDesktopFile registered desktopDir \<Rightarrow>
          (case Run w [''pkexec'', ''cp'', tmpDesktopFile, registered] of
             Some err \<Rightarrow>
               (Some (installCompleteMsg
                        (Some (Errorf_w ''failed to copy desktop file: '' (Some err)))), [])
           | None \<Rightarrow>
               (Some (installCompleteMsg None),
                Ran [''pkexec'', ''cp'', tmpDesktopFile, registered] #
                (if LookPath w ''update-desktop-database''
                 then (case Run w [''pkexec'', ''update-desktop-database'', desktopDir] of
                         None \<Rightarrow> [Ran [''pkexec'', ''update-desktop-database'', desktopDir]]
                       | Some err \<Rightarrow> [])
                 else []))))"

text \<open>One run of the pipeline: \<open>install\<close>, then the command it returned.\<close>

definition pipeline :: "world \<Rightarrow> model \<Rightarrow> msg option \<times> effect list" where
  "pipeline w m =
     (case install w m of
        (m1, c, before) \<Rightarrow>
          (case runCmd w c of (reported, after) \<Rightarrow> (reported, before @ after)))"

section \<open>The wizard\<close>

text \<open>
  \<open>handleEnter\<close>. Indexing \<open>files\<close> by the cursor panics outside the slice. In the
  Categories step the model returned is the one \<open>install\<close> has written to.
\<close>

definition handleEnter :: "world \<Rightarrow> model \<Rightarrow> panic + model \<times> cmd \<times> effect list" where
  "handleEnter w m =
     (case currentStep m of
        stepFileBrowser \<Rightarrow>
          if length (files m) = 0 then Inr (m, NoCmd, [])
          else if 0 \<le> cursor m \<and> cursor m < int (length (files m)) then
            (let selected = files m ! nat (cursor m) in
             if isDir selected
             then Inr (loadDirectory w (m\<lparr>currentDir := path selected\<rparr>), NoCmd, [])
             else Inr (checkConfig w (m\<lparr>appImagePath := path selected\<rparr>), NoCmd, []))
          else Inl IndexOutOfRange
      | stepAppImageDir \<Rightarrow>
          (let m1 = (if input m = [] then m\<lparr>input := Join (UserHomeDir w) ''Applications''\<rparr>
                     else m);
               m2 = m1\<lparr>appImageDir := input m1\<rparr>
           in case MkdirAll w (appImageDir m2) mode0755 of
                Some err \<Rightarrow>
                  Inr (m2\<lparr>currentStep := stepError,
                          error := ''Failed to create directory: '' @ err\<rparr>, NoCmd, [])
              | None \<Rightarrow>
                  (case saveConfig w (configPath m2) (appImageDir m2) of
                     (Some err, saved) \<Rightarrow>
                       Inr (m2\<lparr>currentStep := stepError,
                               error := ''Failed to save config: '' @ err\<rparr>, NoCmd,
                            MadeDir (appImageDir m2) mode0755 # saved)
                   | (None, saved) \<Rightarrow>
                       Inr (m2\<lparr>currentStep := stepAppName, input := []\<rparr>, NoCmd,
                            MadeDir (appImageDir m2) mode0755 # saved)))
      | stepAppName \<Rightarrow>
          if input m = [] then Inr (m\<lparr>error := ''Application name is required''\<rparr>, NoCmd, [])
          else Inr (m\<lparr>appName := input m, currentStep := stepDescription, input := [],
                       error := []\<rparr>, NoCmd, [])
      | stepDescription \<Rightarrow>
          Inr (m\<lparr>description := input m, currentStep := stepIcon, input := []\<rparr>, NoCmd, [])
      | stepIcon \<Rightarrow>
          if input m = ''b'' \<or> input m = ''B''
          then Inr (loadIconDirectory w
                      (m\<lparr>currentDir := UserHomeDir w, currentStep := stepIconBrowser,
                          input := []\<rparr>), NoCmd, [])
          else if input m \<noteq> [] \<and> StatNotExist w (input m)
          then Inr (m\<lparr>error := ''Warning: Icon file not found: '' @ input m\<rparr>, NoCmd, [])
          else Inr (m\<lparr>iconPath := input m, currentStep := stepCategories,
                       input := ''Utility;'', error := []\<rparr>, NoCmd, [])
      | stepIconBrowser \<Rightarrow>
          if length (files m) = 0 then Inr (m, NoCmd, [])
          else if 0 \<le> cursor m \<and> cursor m < int (length (files m)) then
            (let selected = files m ! nat (cursor m) in
             if isDir selected
             then Inr (loadIconDirectory w (m\<lparr>currentDir := path selected\<rparr>), NoCmd, [])
             else Inr (m\<lparr>iconPath := path selected, currentStep := stepCategories,
                          input := ''Utility;'', error := []\<rparr>, NoCmd, []))
          else Inl IndexOutOfRange
      | stepCategories \<Rightarrow>
          (let m1 = (if input m = [] then m\<lparr>input := ''Utility;''\<rparr> else m);
               m2 = (if \<not> HasSuffix (input m1) '';'' then m1\<lparr>input := input m1 @ '';''\<rparr>
                     else m1);
               m3 = m2\<lparr>categories := input m2, currentStep := stepProcessing, input := []\<rparr>
           in Inr (install w m3))
      | stepProcessing \<Rightarrow> Inr (m, NoCmd, [])
      | stepComplete \<Rightarrow> Inr (m, Quit, [])
      | stepError \<Rightarrow> Inr (m, Quit, []))"

text \<open>The two cursor moves that \<open>handleFileBrowserKeys\<close> repeats under several keys.\<close>

definition cursorUp :: "model \<Rightarrow> model" where
  "cursorUp m = (if cursor m > 0 then m\<lparr>cursor := cursor m - 1\<rparr> else m)"

definition cursorDown :: "model \<Rightarrow> model" where
  "cursorDown m =
     (if cursor m < int (length (files m)) - 1 then m\<lparr>cursor := cursor m + 1\<rparr> else m)"

definition handleFileBrowserKeys ::
  "world \<Rightarrow> model \<Rightarrow> string \<Rightarrow> panic + model \<times> cmd \<times> effect list" where
  "handleFileBrowserKeys w m key =
     (if searchMode m then
        (if key = ''ctrl+c'' then Inr (m, Quit, [])
         else if key = ''esc''
         then Inr (m\<lparr>searchMode := False, searchQuery := [], files := allFiles m,
                      fuzzyMatches := [], cursor := 0\<rparr>, NoCmd, [])
         else if key = ''enter'' then handleEnter w (m\<lparr>searchMode := False\<rparr>)
         else if key = ''backspace''
         then (if length (searchQuery m) > 0
               then (case applyFuzzySearch w (m\<lparr>searchQuery := butlast (searchQuery m)\<rparr>) of
                       Inl p \<Rightarrow> Inl p
                     | Inr m1 \<Rightarrow> Inr (m1, NoCmd, []))
               else Inr (m, NoCmd, []))
         else if key = ''up'' then Inr (cursorUp m, NoCmd, [])
         else if key = ''down'' then Inr (cursorDown m, NoCmd, [])
         else (if length key = 1
               then (case applyFuzzySearch w (m\<lparr>searchQuery := searchQuery m @ key\<rparr>) of
                       Inl p \<Rightarrow> Inl p
                     | Inr m1 \<Rightarrow> Inr (m1, NoCmd, []))
               else Inr (m, NoCmd, [])))
      else
        (if key = ''ctrl+c'' \<or> key = ''esc'' then Inr (m, Quit, [])
         else if key = ''/'' then Inr (m\<lparr>searchMode := True, searchQuery := []\<rparr>, NoCmd, [])
         else if key = ''up'' then Inr (cursorUp m, NoCmd, [])
         else if key = ''down'' then Inr (cursorDown m, NoCmd, [])
         else if key = ''k'' then Inr (cursorUp m, NoCmd, [])
         else if key = ''j'' then Inr (cursorDown m, NoCmd, [])
         else if key = ''enter'' then handleEnter w m
         else if key = ''backspace''
         then (if currentDir m \<noteq> ''/''
               then (let m1 = m\<lparr>currentDir := Dir (currentDir m)\<rparr> in
                     if currentStep m1 = stepIconBrowser
                     then Inr (loadIconDirectory w m1, NoCmd, [])
                     else Inr (loadDirectory w m1, NoCmd, []))
               else Inr (m, NoCmd, []))
         else Inr (m, NoCmd, [])))"

definition Update :: "world \<Rightarrow> model \<Rightarrow> msg \<Rightarrow> panic + model \<times> cmd \<times> effect list" where
  "Update w m ms =
     (case ms of
        KeyMsg key \<Rightarrow>
          if isFileBrowserStep m then handleFileBrowserKeys w m key
          else if key = ''ctrl+c'' \<or> key = ''esc'' then Inr (m, Quit, [])
          else if key = ''enter'' then handleEnter w m
          else if key = ''backspace''
          then Inr ((if length (input m) > 0 then m\<lparr>input := butlast (input m)\<rparr> else m),
                    NoCmd, [])
          else Inr ((if currentStep m \<noteq> stepProcessing \<and> currentStep m \<noteq> stepComplete \<and>
                        currentStep m \<noteq> stepError
                     then m\<lparr>input := input m @ key\<rparr> else m), NoCmd, [])
      | installCompleteMsg err \<Rightarrow>
          (case err of
             Some e \<Rightarrow> Inr (m\<lparr>currentStep := stepError, error := e\<rparr>, NoCmd, [])
           | None \<Rightarrow> Inr (m\<lparr>currentStep := stepComplete\<rparr>, NoCmd, []))
      | OtherMsg \<Rightarrow> Inr (m, NoCmd, []))"

text \<open>The zero value of \<open>model\<close>, and \<open>initialModel\<close>.\<close>

definition zeroModel :: model where
  "zeroModel =
     \<lparr>currentStep = stepFileBrowser, appImagePath = [], appImageDir = [], appName = [],
      description = [], iconPath = [], categories = [], input = [], error = [], message = [],
      configPath = [], firstTimeSetup = False, desktopFilePath = [], currentDir = [],
      files = [], allFiles = [], cursor = 0, searchMode = False, searchQuery = [],
      fuzzyMatches = []\<rparr>"

definition initialModel :: "world \<Rightarrow> string \<Rightarrow> model" where
  "initialModel w appImagePath0 =
     (let homeDir = UserHomeDir w;
          m = zeroModel\<lparr>appImagePath := appImagePath0,
                        configPath := Join homeDir ''.config/teabag.conf'',
                        categories := ''Utility;''\<rparr>
      in if appImagePath0 = []
         then loadDirectory w
                (m\<lparr>currentStep := stepFileBrowser,
                    currentDir := (case Getwd w of Inl e \<Rightarrow> [] | Inr wd \<Rightarrow> wd)\<rparr>)
         else checkConfig w m)"

text \<open>A session: the messages delivered one after the other, each answered by the
  environment of its moment; a panic ends it.\<close>

fun session :: "model \<Rightarrow> (world \<times> msg) list \<Rightarrow> panic + model" where
  "session m [] = Inr m"
| "session m ((w, ms) # rest) =
     (case Update w m ms of
        Inl p \<Rightarrow> Inl p
      | Inr (m1, c, changes) \<Rightarrow> session m1 rest)"

section \<open>Notions used to state the properties\<close>

text \<open>\<open>strings.Contains\<close>: the text mentions the phrase.\<close>

fun Contains :: "string \<Rightarrow> string \<Rightarrow> bool" where
  "Contains [] phrase = (phrase = [])"
| "Contains (c # cs) phrase = (HasPrefix (c # cs) phrase \<or> Contains cs phrase)"

text \<open>The text of the last \<open>return\<close> of \<open>install\<close>, with its nil error formatted.\<close>

definition privilegesMessage :: string where
  "privilegesMessage =
     ''Installation requires administrator privileges. \<newline>\<newline> Rerun with sudo or pkexec.\<newline>%!w(<nil>)''"

text \<open>What the pipeline has done to the bundle once it is moved and executable: the
  move (none when the bundle already is the destination file), then the mode.\<close>

definition movedAndExecutable :: "string \<Rightarrow> string \<Rightarrow> effect list" where
  "movedAndExecutable absPath destFile =
     (if absPath \<noteq> destFile then [Moved absPath destFile] else []) @
     [ModeSet destFile mode0755]"

text \<open>The file that \<open>install\<close> registers the launcher metadata as.\<close>

definition registered :: "world \<Rightarrow> model \<Rightarrow> string" where
  "registered w m = Join ''/usr/share/applications'' (desktopFilename w m)"

text \<open>
  Resolving, moving, setting the mode and writing the temporary file all succeed, for the
  absolute path, destination file and temporary file named: the run gets as far as the
  unprivileged copy.
\<close>

definition reachesCopy :: "world \<Rightarrow> model \<Rightarrow> string \<Rightarrow> string \<Rightarrow> string \<Rightarrow> bool" where
  "reachesCopy w m absPath destFile tmp =
     (Abs w (appImagePath m) = Inr absPath \<and>
      destFile = Join (appImageDir m) (Base absPath) \<and>
      (absPath = destFile \<or> Rename w absPath destFile = None) \<and>
      Chmod w destFile mode0755 = None \<and>
      tmp = Join (TempDir w) (desktopFilename w m) \<and>
      WriteFile w tmp (desktopEntry m destFile) mode0644 = None)"

text \<open>The destination the program computes: the configured directory joined with the
  base name of the bundle's absolute path.\<close>

definition destinationOf :: "model \<Rightarrow> string \<Rightarrow> string" where
  "destinationOf m absPath = Join (appImageDir m) (Base absPath)"

text \<open>
  The launcher-metadata layout as the specification words it: a header, then one
  \<open>key=value\<close> line per field, in the order Name, Exec, Type, Categories, and then
  Comment and Icon when their values are not empty.
\<close>

definition metadataFields :: "string \<Rightarrow> string \<Rightarrow> string \<Rightarrow> string \<Rightarrow> string \<Rightarrow> (string \<times> string) list" where
  "metadataFields nm exec cats comment icon =
     [(''Name'', nm), (''Exec'', exec), (''Type'', ''Application''), (''Categories'', cats)] @
     (if comment \<noteq> [] then [(''Comment'', comment)] else []) @
     (if icon \<noteq> [] then [(''Icon'', icon)] else [])"

definition fieldLine :: "string \<times> string \<Rightarrow> string" where
  "fieldLine kv = fst kv @ ''='' @ snd kv @ ''\<newline>''"

definition renderFields :: "(string \<times> string) list \<Rightarrow> string" where
  "renderFields kvs = ''[Desktop Entry]\<newline>'' @ concat (map fieldLine kvs)"

text \<open>The value holds no line break.\<close>

definition noNewline :: "string \<Rightarrow> bool" where
  "noNewline s = (CHR 0x0A \<notin> set s)"

text \<open>The extension predicates of the two filter kinds, and the parent entry.\<close>

definition imageExtensions :: "string list" where
  "imageExtensions = [''.png'', ''.jpg'', ''.jpeg'', ''.svg'', ''.ico'', ''.xpm'', ''.bmp'', ''.gif'', ''.webp'']"

definition passesFilter :: "world \<Rightarrow> bool \<Rightarrow> string \<Rightarrow> bool" where
  "passesFilter w iconMode nm =
     (if iconMode then (\<exists>ext \<in> set imageExtensions. HasSuffix (ToLower w nm) ext)
      else HasSuffix (ToLower w nm) ''.appimage'')"

definition parentEntry :: "string \<Rightarrow> fileEntry" where
  "parentEntry dir = \<lparr>name = ''..'', path = Dir dir, isDir = True\<rparr>"

text \<open>The cursor is a valid index into the visible entries, or 0 when there are none.\<close>

definition cursorInRange :: "model \<Rightarrow> bool" where
  "cursorInRange m =
     (if files m = [] then cursor m = 0
      else 0 \<le> cursor m \<and> cursor m < int (length (files m)))"

text \<open>The matcher keeps its contract: every index it returns points into the list of
  labels it was given.\<close>

definition matcherInRange :: "world \<Rightarrow> model \<Rightarrow> bool" where
  "matcherInRange w m =
     (\<forall>q. \<forall>i \<in> set (FindFrom w q (map name (allFiles m))).
        0 \<le> i \<and> i < int (length (allFiles m)))"

subsection \<open>Sample environment and inputs\<close>

text \<open>Is \<open>q\<close> a subsequence of \<open>s\<close>, letter case aside?\<close>

fun subsequence :: "string \<Rightarrow> string \<Rightarrow> bool" where
  "subsequence [] s = True"
| "subsequence (c # q) [] = False"
| "subsequence (c # q) (d # s) =
     (if lowerByte c = lowerByte d then subsequence q s else subsequence (c # q) s)"

definition sampleEntries :: "dirEntry list" where
  "sampleEntries =
     [\<lparr>Name = ''Apps'', IsDir = True\<rparr>,
      \<lparr>Name = ''Tool.AppImage'', IsDir = False\<rparr>,
      \<lparr>Name = ''logo.PNG'', IsDir = False\<rparr>,
      \<lparr>Name = ''notes.txt'', IsDir = False\<rparr>]"

text \<open>
  A machine with user \<open>u\<close>: every file operation succeeds, the configuration file
  exists and holds \<open>conf\<close>, every directory lists \<open>sampleEntries\<close>, the matcher returns
  the labels that have the query as a subsequence, in listing order, and the names met
  are ASCII, so that \<open>ToLower\<close> is \<open>lowerAscii\<close>. \<open>cpWorks\<close> says
  whether a plain \<open>cp\<close> succeeds and \<open>helper\<close> whether \<open>pkexec\<close> is installed.
\<close>

definition sampleWorld :: "bool \<Rightarrow> bool \<Rightarrow> string \<Rightarrow> world" where
  "sampleWorld cpWorks helper conf =
     \<lparr>UserHomeDir = ''/home/u'',
      Getwd = Inr ''/home/u'',
      TempDir = ''/tmp'',
      StatNotExist = (\<lambda>p. False),
      ReadFile = (\<lambda>p. Inr conf),
      ReadDir = (\<lambda>p. Inr sampleEntries),
      MkdirAll = (\<lambda>p md. None),
      WriteFile = (\<lambda>p c md. None),
      Rename = (\<lambda>a b. None),
      Chmod = (\<lambda>p md. None),
      LookPath = (\<lambda>c. helper \<and> c = ''pkexec''),
      Run = (\<lambda>argv. if take 1 argv = [''cp''] \<and> \<not> cpWorks then Some ''exit status 1'' else None),
      FindFrom = (\<lambda>q labels. map int (filter (\<lambda>i. subsequence q (labels ! i)) [0..<length labels])),
      ToLower = lowerAscii\<rparr>"

text \<open>The wizard about to install \<open>/tmp/App.bundle\<close> as \<open>My App\<close> into \<open>dir\<close>.\<close>

definition sampleInstall :: "string \<Rightarrow> string \<Rightarrow> model" where
  "sampleInstall bundle dir =
     zeroModel\<lparr>currentStep := stepProcessing, appImagePath := bundle, appImageDir := dir,
               appName := ''My App'', categories := ''Utility;''\<rparr>"

text \<open>The listing of \<open>/home/u\<close> with the bundle filter and with the image filter.\<close>

definition sampleListing :: "fileEntry list" where
  "sampleListing =
     [\<lparr>name = ''..'', path = ''/home'', isDir = True\<rparr>,
      \<lparr>name = ''Apps'', path = ''/home/u/Apps'', isDir = True\<rparr>,
      \<lparr>name = ''Tool.AppImage'', path = ''/home/u/Tool.AppImage'', isDir = False\<rparr>]"

definition sampleIcons :: "fileEntry list" where
  "sampleIcons =
     [\<lparr>name = ''..'', path = ''/home'', isDir = True\<rparr>,
      \<lparr>name = ''Apps'', path = ''/home/u/Apps'', isDir = True\<rparr>,
      \<lparr>name = ''logo.PNG'', path = ''/home/u/logo.PNG'', isDir = False\<rparr>]"

text \<open>The browser as the wizard starts in \<open>/home/u\<close>; after \<open>/\<close> and \<open>p\<close>; after
  \<open>/\<close> and \<open>z\<close>, which matches nothing; and with the cursor on the bundle.\<close>

definition sampleBrowser :: model where
  "sampleBrowser =
     zeroModel\<lparr>categories := ''Utility;'', configPath := ''/home/u/.config/teabag.conf'',
               currentDir := ''/home/u'', files := sampleListing, allFiles := sampleListing\<rparr>"


definition sampleNoMatch :: model where
  "sampleNoMatch = sampleBrowser\<lparr>files := [], searchMode := True, searchQuery := ''z''\<rparr>"

definition sampleSelect :: model where
  "sampleSelect = sampleBrowser\<lparr>cursor := 2\<rparr>"

text \<open>The wizard at the Categories step with \<open>Game\<close> typed, and at the Icon step with
  \<open>b\<close> typed after browsing elsewhere.\<close>

definition sampleCategories :: model where
  "sampleCategories =
     (sampleInstall ''/tmp/App.bundle'' ''/home/u/Apps'')\<lparr>currentStep := stepCategories, input := ''Game''\<rparr>"

definition sampleIconStep :: model where
  "sampleIconStep = sampleBrowser\<lparr>currentStep := stepIcon, input := ''b'', currentDir := ''/media/usb''\<rparr>"

text \<open>The wizard about to install, with a description given.\<close>

definition sampleDescribed :: model where
  "sampleDescribed = (sampleInstall ''/tmp/App.bundle'' ''/home/u/Apps'')\<lparr>description := ''A demo''\<rparr>"


section \<open>Properties of the installation pipeline\<close>

lemma lastReturn_text:
  "Errorf_w (''Installation requires administrator privileges. '' @
             ''\<newline>\<newline> Rerun with sudo or pkexec.\<newline>'') None = privilegesMessage"
  by (simp add: Errorf_w_def privilegesMessage_def)

text \<open>
  What \<open>install\<close> returns once the run has reached the unprivileged copy.
\<close>

lemma install_at_copy:
  assumes "reachesCopy w m absPath destFile tmp"
  shows "install w m =
     (case Run w [''cp'', tmp, registered w m] of
        Some e \<Rightarrow>
          if LookPath w ''pkexec''
          then (m\<lparr>desktopFilePath := registered w m\<rparr>,
                PkexecCopy tmp (registered w m) ''/usr/share/applications'',
                movedAndExecutable absPath destFile @ [Wrote tmp (desktopEntry m destFile) mode0644])
          else (m\<lparr>desktopFilePath := registered w m\<rparr>, Report (Some privilegesMessage),
                movedAndExecutable absPath destFile @ [Wrote tmp (desktopEntry m destFile) mode0644])
      | None \<Rightarrow>
          (m\<lparr>desktopFilePath := registered w m\<rparr>, Report (Some privilegesMessage),
           movedAndExecutable absPath destFile @
           [Wrote tmp (desktopEntry m destFile) mode0644, Ran [''cp'', tmp, registered w m]]))"
  using assms
  unfolding reachesCopy_def install_def Let_def lastReturn_text registered_def
    movedAndExecutable_def
  by (auto split: option.splits)

lemma privilegesMessage_mentions: "Contains privilegesMessage ''administrator privileges''"
  by (simp add: privilegesMessage_def HasPrefix_def)

lemma sample_reachesCopy:
  "reachesCopy (sampleWorld cpWorks helper conf) (sampleInstall ''/tmp/App.bundle'' ''/home/u/Apps'')
     ''/tmp/App.bundle'' ''/home/u/Apps/App.bundle'' ''/tmp/my-app.desktop''"
  by (simp add: reachesCopy_def sampleWorld_def sampleInstall_def zeroModel_def Abs_def IsAbs_def
      HasPrefix_def Clean_def cleanStep_def Join_def Base_def desktopFilename_def lowerAscii_def
      lowerByte_def ReplaceAll_def)

lemma sample_registered:
  "registered (sampleWorld cpWorks helper conf) (sampleInstall bundle dir) = ''/usr/share/applications/my-app.desktop''"
  by (simp add: registered_def sampleWorld_def sampleInstall_def zeroModel_def desktopFilename_def
      lowerAscii_def lowerByte_def ReplaceAll_def Join_def Clean_def cleanStep_def)

text \<open>
  When the unprivileged copy succeeds, \<open>install\<close> leaves its \<open>if\<close> and reaches the
  last \<open>return\<close>: the run reports the elevated-privileges failure, after a copy that
  worked.
\<close>

lemma copy_succeeds_reports_privileges:
  assumes "reachesCopy w m absPath destFile tmp"
    and "Run w [''cp'', tmp, registered w m] = None"
  shows "pipeline w m =
           (Some (installCompleteMsg (Some privilegesMessage)),
            movedAndExecutable absPath destFile @
            [Wrote tmp (desktopEntry m destFile) mode0644, Ran [''cp'', tmp, registered w m]])"
  using assms(2) install_at_copy [OF assms(1)]
  by (simp add: pipeline_def runCmd_def)

text \<open>
  Claim C1 says that a run whose steps all succeed, the unprivileged copy included,
  reports success, and that the elevated-privileges message is reached only when that copy
  fails. The code reports failure instead: on the sample machine where the plain
  \<open>cp\<close> works, the run moves the bundle, sets its mode, writes and copies the metadata
  file, and then reports the elevated-privileges error.
\<close>

theorem copy_succeeds_failure_reported:
  "pipeline (sampleWorld True False []) (sampleInstall ''/tmp/App.bundle'' ''/home/u/Apps'') =
     (Some (installCompleteMsg (Some privilegesMessage)),
      movedAndExecutable ''/tmp/App.bundle'' ''/home/u/Apps/App.bundle'' @
      [Wrote ''/tmp/my-app.desktop''
         (desktopEntry (sampleInstall ''/tmp/App.bundle'' ''/home/u/Apps'') ''/home/u/Apps/App.bundle'')
         mode0644,
       Ran [''cp'', ''/tmp/my-app.desktop'', ''/usr/share/applications/my-app.desktop'']])"
proof -
  have "Run (sampleWorld True False [])
          [''cp'', ''/tmp/my-app.desktop'',
           registered (sampleWorld True False []) (sampleInstall ''/tmp/App.bundle'' ''/home/u/Apps'')] = None"
    by (simp add: sampleWorld_def)
  from copy_succeeds_reports_privileges [OF sample_reachesCopy this]
  show ?thesis by (simp add: sample_registered)
qed

text \<open>
  Claim C2: when the unprivileged copy fails and no \<open>pkexec\<close> is found, the run
  reports failure with the message about administrator privileges, and by then the bundle
  has been moved to the destination file and made executable (and the temporary metadata
  file written); nothing is rolled back.
\<close>

theorem no_helper_reports_privileges:
  assumes "reachesCopy w m absPath destFile tmp"
    and "Run w [''cp'', tmp, registered w m] = Some e"
    and "\<not> LookPath w ''pkexec''"
  shows "pipeline w m =
           (Some (installCompleteMsg (Some privilegesMessage)),
            movedAndExecutable absPath destFile @ [Wrote tmp (desktopEntry m destFile) mode0644]) \<and>
         Contains privilegesMessage ''administrator privileges''"
  using assms(2,3) install_at_copy [OF assms(1)]
  by (simp add: pipeline_def runCmd_def privilegesMessage_mentions)

theorem no_helper_reports_privileges_witness:
  "reachesCopy (sampleWorld False False []) (sampleInstall ''/tmp/App.bundle'' ''/home/u/Apps'')
     ''/tmp/App.bundle'' ''/home/u/Apps/App.bundle'' ''/tmp/my-app.desktop'' \<and>
   Run (sampleWorld False False [])
     [''cp'', ''/tmp/my-app.desktop'',
      registered (sampleWorld False False []) (sampleInstall ''/tmp/App.bundle'' ''/home/u/Apps'')] = Some ''exit status 1'' \<and>
   \<not> LookPath (sampleWorld False False []) ''pkexec'' \<and>
   pipeline (sampleWorld False False []) (sampleInstall ''/tmp/App.bundle'' ''/home/u/Apps'') =
     (Some (installCompleteMsg (Some privilegesMessage)),
      [Moved ''/tmp/App.bundle'' ''/home/u/Apps/App.bundle'',
       ModeSet ''/home/u/Apps/App.bundle'' mode0755,
       Wrote ''/tmp/my-app.desktop''
         (desktopEntry (sampleInstall ''/tmp/App.bundle'' ''/home/u/Apps'') ''/home/u/Apps/App.bundle'')
         mode0644])"
proof -
  have cp: "Run (sampleWorld False False [])
              [''cp'', ''/tmp/my-app.desktop'',
               registered (sampleWorld False False []) (sampleInstall ''/tmp/App.bundle'' ''/home/u/Apps'')] =
            Some ''exit status 1''"
    by (simp add: sampleWorld_def)
  have helper: "\<not> LookPath (sampleWorld False False []) ''pkexec''"
    by (simp add: sampleWorld_def)
  from no_helper_reports_privileges [OF sample_reachesCopy cp helper] cp helper
  show ?thesis by (simp add: sample_reachesCopy movedAndExecutable_def)
qed

lemma Abs_Rename [simp]: "Abs (w\<lparr>Rename := r\<rparr>) p = Abs w p"
  by (simp add: Abs_def)

lemma desktopFilename_Rename [simp]:
  "desktopFilename (w\<lparr>Rename := r\<rparr>) m = desktopFilename w m"
  by (simp add: desktopFilename_def)

lemma install_effects_start:
  assumes "Abs w (appImagePath m) = Inr absPath"
    and "Rename w absPath (destinationOf m absPath) = None"
    and "absPath \<noteq> destinationOf m absPath"
  shows "\<exists>rest. snd (snd (install w m)) = Moved absPath (destinationOf m absPath) # rest"
  using assms
  by (simp add: install_def destinationOf_def Let_def split: option.splits)

lemma desktopEntry_layout:
  "desktopEntry m destFile =
     renderFields (metadataFields (appName m) destFile (categories m) (description m) (iconPath m))"
  by (simp add: desktopEntry_def renderFields_def metadataFields_def fieldLine_def Let_def)

text \<open>
  Claim C3, as amended. For a run whose bundle path resolves to \<open>absPath\<close>, the
  destination is the configured directory joined with the base name of \<open>absPath\<close>.
  The move is skipped exactly when \<open>absPath\<close> is that destination path as computed:
  then \<open>install\<close> never consults \<open>Rename\<close>; otherwise a failing rename ends the
  run with the move error and a successful one is the first change made. When the run
  reaches the copy, the temporary and the registered file are named after the
  application name with spaces replaced by hyphens, lower-cased by \<open>strings.ToLower\<close>,
  plus \<open>.desktop\<close> (\<open>my-app.desktop\<close> for \<open>My App\<close>), and the \<open>Exec\<close> field
  of the text written is the destination path.
\<close>

theorem move_skipped_iff_same_path:
  assumes "Abs w (appImagePath m) = Inr absPath"
  shows "(absPath = destinationOf m absPath \<longrightarrow>
            (\<forall>r. install (w\<lparr>Rename := r\<rparr>) m = install w m)) \<and>
         (absPath \<noteq> destinationOf m absPath \<longrightarrow>
            (case Rename w absPath (destinationOf m absPath) of
               Some e \<Rightarrow> install w m = (m, Report (Some (''failed to move file: '' @ e)), [])
             | None \<Rightarrow> (\<exists>rest. snd (snd (install w m)) =
                                 Moved absPath (destinationOf m absPath) # rest))) \<and>
         (reachesCopy w m absPath destFile tmp \<longrightarrow>
            destFile = destinationOf m absPath \<and>
            tmp = Join (TempDir w)
                    (ToLower w (ReplaceAll (appName m) (CHR '' '') (CHR ''-'')) @ ''.desktop'') \<and>
            desktopFilePath (fst (install w m)) =
              Join ''/usr/share/applications''
                (ToLower w (ReplaceAll (appName m) (CHR '' '') (CHR ''-'')) @ ''.desktop'') \<and>
            (\<exists>rest. snd (snd (install w m)) =
               movedAndExecutable absPath destFile @
               Wrote tmp (renderFields (metadataFields (appName m) destFile (categories m)
                            (description m) (iconPath m))) mode0644 # rest) \<and>
            map_of (metadataFields (appName m) destFile (categories m) (description m) (iconPath m))
              ''Exec'' = Some destFile) \<and>
         (ToLower w ''My-App'' = ''my-app'' \<and> appName m = ''My App'' \<longrightarrow>
            desktopFilename w m = ''my-app.desktop'')"
proof (intro conjI impI)
  assume same: "absPath = destinationOf m absPath"
  show "\<forall>r. install (w\<lparr>Rename := r\<rparr>) m = install w m"
    using assms same unfolding install_def destinationOf_def Let_def
    by (auto split: option.splits)
next
  assume diff: "absPath \<noteq> destinationOf m absPath"
  show "case Rename w absPath (destinationOf m absPath) of
          Some e \<Rightarrow> install w m = (m, Report (Some (''failed to move file: '' @ e)), [])
        | None \<Rightarrow> (\<exists>rest. snd (snd (install w m)) = Moved absPath (destinationOf m absPath) # rest)"
  proof (cases "Rename w absPath (destinationOf m absPath)")
    case None
    then show ?thesis using install_effects_start [OF assms None diff] by simp
  next
    case (Some e)
    then show ?thesis using assms diff
      by (simp add: install_def destinationOf_def Let_def Errorf_w_def)
  qed
next
  assume r: "reachesCopy w m absPath destFile tmp"
  show "destFile = destinationOf m absPath"
    using r by (simp add: reachesCopy_def destinationOf_def)
  show "tmp = Join (TempDir w)
                (ToLower w (ReplaceAll (appName m) (CHR '' '') (CHR ''-'')) @ ''.desktop'')"
    using r by (simp add: reachesCopy_def desktopFilename_def)
  show "desktopFilePath (fst (install w m)) =
          Join ''/usr/share/applications''
            (ToLower w (ReplaceAll (appName m) (CHR '' '') (CHR ''-'')) @ ''.desktop'')"
    using install_at_copy [OF r]
    by (simp add: registered_def desktopFilename_def split: option.splits)
  show "\<exists>rest. snd (snd (install w m)) =
               movedAndExecutable absPath destFile @
               Wrote tmp (renderFields (metadataFields (appName m) destFile (categories m)
                            (description m) (iconPath m))) mode0644 # rest"
    using install_at_copy [OF r]
    by (simp add: desktopEntry_layout split: option.splits)
  show "map_of (metadataFields (appName m) destFile (categories m) (description m) (iconPath m))
              ''Exec'' = Some destFile"
    by (simp add: metadataFields_def)
next
  assume "ToLower w ''My-App'' = ''my-app'' \<and> appName m = ''My App''"
  then show "desktopFilename w m = ''my-app.desktop''"
    by (simp add: desktopFilename_def ReplaceAll_def)
qed

theorem move_skipped_iff_same_path_witness:
  "Abs (sampleWorld False True []) (appImagePath (sampleInstall ''/tmp/App.bundle'' ''/home/u/Apps'')) =
     Inr ''/tmp/App.bundle'' \<and>
   destinationOf (sampleInstall ''/tmp/App.bundle'' ''/home/u/Apps'') ''/tmp/App.bundle'' =
     ''/home/u/Apps/App.bundle'' \<and>
   Rename (sampleWorld False True []) ''/tmp/App.bundle'' ''/home/u/Apps/App.bundle'' = None \<and>
   reachesCopy (sampleWorld False True []) (sampleInstall ''/tmp/App.bundle'' ''/home/u/Apps'')
     ''/tmp/App.bundle'' ''/home/u/Apps/App.bundle'' ''/tmp/my-app.desktop'' \<and>
   (\<exists>rest. snd (snd (install (sampleWorld False True [])
                          (sampleInstall ''/tmp/App.bundle'' ''/home/u/Apps''))) =
            Moved ''/tmp/App.bundle'' ''/home/u/Apps/App.bundle'' # rest) \<and>
   desktopFilePath (fst (install (sampleWorld False True [])
                           (sampleInstall ''/tmp/App.bundle'' ''/home/u/Apps''))) =
     ''/usr/share/applications/my-app.desktop'' \<and>
   Abs (sampleWorld False True [])
     (appImagePath (sampleInstall ''/home/u/Apps/App.bundle'' ''/home/u/Apps'')) =
     Inr ''/home/u/Apps/App.bundle'' \<and>
   destinationOf (sampleInstall ''/home/u/Apps/App.bundle'' ''/home/u/Apps'') ''/home/u/Apps/App.bundle'' =
     ''/home/u/Apps/App.bundle'' \<and>
   install ((sampleWorld False True [])\<lparr>Rename := \<lambda>a b. Some ''denied''\<rparr>)
     (sampleInstall ''/home/u/Apps/App.bundle'' ''/home/u/Apps'') =
   install (sampleWorld False True []) (sampleInstall ''/home/u/Apps/App.bundle'' ''/home/u/Apps'') \<and>
   ToLower (sampleWorld False True []) ''My-App'' = ''my-app'' \<and>
   appName (sampleInstall ''/tmp/App.bundle'' ''/home/u/Apps'') = ''My App'' \<and>
   desktopFilename (sampleWorld False True []) (sampleInstall ''/tmp/App.bundle'' ''/home/u/Apps'') =
     ''my-app.desktop''"
proof -
  let ?w = "sampleWorld False True []"
  let ?m1 = "sampleInstall ''/tmp/App.bundle'' ''/home/u/Apps''"
  let ?m2 = "sampleInstall ''/home/u/Apps/App.bundle'' ''/home/u/Apps''"
  have abs1: "Abs ?w (appImagePath ?m1) = Inr ''/tmp/App.bundle''" by code_simp
  have dest1: "destinationOf ?m1 ''/tmp/App.bundle'' = ''/home/u/Apps/App.bundle''" by code_simp
  have mv1: "Rename ?w ''/tmp/App.bundle'' ''/home/u/Apps/App.bundle'' = None"
    by (simp add: sampleWorld_def)
  have abs2: "Abs ?w (appImagePath ?m2) = Inr ''/home/u/Apps/App.bundle''" by code_simp
  have dest2: "destinationOf ?m2 ''/home/u/Apps/App.bundle'' = ''/home/u/Apps/App.bundle''"
    by code_simp
  have name1: "ToLower ?w (ReplaceAll (appName ?m1) (CHR '' '') (CHR ''-'')) @ ''.desktop'' =
               ''my-app.desktop''"
    by code_simp
  have reg: "Join ''/usr/share/applications'' ''my-app.desktop'' =
             ''/usr/share/applications/my-app.desktop''"
    by code_simp
  note first = move_skipped_iff_same_path [OF abs1,
      of "''/home/u/Apps/App.bundle''" "''/tmp/my-app.desktop''"]
  note second = move_skipped_iff_same_path [OF abs2]
  from first dest1 mv1
  have moved: "\<exists>rest. snd (snd (install ?w ?m1)) =
                 Moved ''/tmp/App.bundle'' ''/home/u/Apps/App.bundle'' # rest"
    by simp
  from first sample_reachesCopy [of False True "[]"]
  have regfile: "desktopFilePath (fst (install ?w ?m1)) = ''/usr/share/applications/my-app.desktop''"
    by (simp add: name1 reg)
  from second dest2
  have skip: "install (?w\<lparr>Rename := \<lambda>a b. Some ''denied''\<rparr>) ?m2 = install ?w ?m2"
    by simp
  have low: "ToLower ?w ''My-App'' = ''my-app''" by code_simp
  have nm: "appName ?m1 = ''My App''" by (simp add: sampleInstall_def)
  from first low nm have fname: "desktopFilename ?w ?m1 = ''my-app.desktop''" by blast
  from abs1 dest1 mv1 sample_reachesCopy [of False True "[]"] moved regfile abs2 dest2 skip
    low nm fname
  show ?thesis by (intro conjI)
qed

text \<open>
  The wording of the claim compares absolute paths. The destination is not made
  absolute: with the relative directory \<open>Apps\<close> and the bundle \<open>Apps/App.bundle\<close>,
  both resolved from \<open>/home/u\<close>, source and destination have the same absolute path,
  and the move is made all the same.
\<close>

theorem relative_directory_move_not_skipped:
  "Abs (sampleWorld False True []) (appImagePath (sampleInstall ''Apps/App.bundle'' ''Apps'')) = Inr ''/home/u/Apps/App.bundle'' \<and>
   destinationOf (sampleInstall ''Apps/App.bundle'' ''Apps'') ''/home/u/Apps/App.bundle'' = ''Apps/App.bundle'' \<and>
   Abs (sampleWorld False True []) ''Apps/App.bundle'' = Inr ''/home/u/Apps/App.bundle'' \<and>
   snd (snd (install (sampleWorld False True []) (sampleInstall ''Apps/App.bundle'' ''Apps''))) =
     [Moved ''/home/u/Apps/App.bundle'' ''Apps/App.bundle'', ModeSet ''Apps/App.bundle'' mode0755,
      Wrote ''/tmp/my-app.desktop'' (desktopEntry (sampleInstall ''Apps/App.bundle'' ''Apps'') ''Apps/App.bundle'') mode0644]"
  by (simp add: sampleWorld_def sampleInstall_def zeroModel_def Abs_def IsAbs_def
      HasPrefix_def Clean_def cleanStep_def Join_def Base_def desktopFilename_def lowerAscii_def
      lowerByte_def ReplaceAll_def destinationOf_def install_def Let_def)

text \<open>The lines of the metadata text, when no value holds a line break.\<close>

lemma Split_line:
  "noNewline a \<Longrightarrow> Split (a @ CHR 0x0A # rest) (CHR 0x0A) = a # Split rest (CHR 0x0A)"
  by (induction a) (auto simp: noNewline_def)

lemma Split_fieldLine:
  assumes "noNewline (snd kv)" and "noNewline (fst kv)"
  shows "Split (fieldLine kv @ rest) (CHR 0x0A) = (fst kv @ ''='' @ snd kv) # Split rest (CHR 0x0A)"
proof -
  have "noNewline (fst kv @ ''='' @ snd kv)"
    using assms by (simp add: noNewline_def)
  from Split_line [OF this, of rest] show ?thesis
    by (simp add: fieldLine_def)
qed

lemma Split_fields:
  assumes "\<forall>kv \<in> set kvs. noNewline (fst kv) \<and> noNewline (snd kv)"
  shows "Split (concat (map fieldLine kvs)) (CHR 0x0A) =
           map (\<lambda>kv. fst kv @ ''='' @ snd kv) kvs @ [[]]"
  using assms
proof (induction kvs)
  case Nil
  then show ?case by simp
next
  case (Cons kv kvs)
  then show ?case by (simp add: Split_fieldLine)
qed

lemma desktopEntry_lines:
  assumes "noNewline (appName m)" "noNewline destFile" "noNewline (categories m)"
    "noNewline (description m)" "noNewline (iconPath m)"
  shows "Split (desktopEntry m destFile) (CHR 0x0A) =
           [''[Desktop Entry]'', ''Name='' @ appName m, ''Exec='' @ destFile, ''Type=Application'',
            ''Categories='' @ categories m] @
           (if description m \<noteq> [] then [''Comment='' @ description m] else []) @
           (if iconPath m \<noteq> [] then [''Icon='' @ iconPath m] else []) @ [[]]"
proof -
  let ?kvs = "metadataFields (appName m) destFile (categories m) (description m) (iconPath m)"
  have ok: "\<forall>kv \<in> set ?kvs. noNewline (fst kv) \<and> noNewline (snd kv)"
    using assms by (auto simp: metadataFields_def noNewline_def)
  have hd: "noNewline ''[Desktop Entry]''" by (simp add: noNewline_def)
  have "Split (desktopEntry m destFile) (CHR 0x0A) =
          ''[Desktop Entry]'' # Split (concat (map fieldLine ?kvs)) (CHR 0x0A)"
    unfolding desktopEntry_layout renderFields_def
    using Split_line [OF hd, of "concat (map fieldLine ?kvs)"] by simp
  also have "\<dots> = ''[Desktop Entry]'' # map (\<lambda>kv. fst kv @ ''='' @ snd kv) ?kvs @ [[]]"
    by (simp only: Split_fields [OF ok])
  finally show ?thesis by (simp add: metadataFields_def)
qed

text \<open>
  Claim C4: whatever the name, destination, categories, description and icon path, the
  metadata text is the header followed by the lines of its fields, whose keys are Name,
  Exec, Type (with the value \<open>Application\<close>), Categories, then Comment exactly when
  the description is not empty, then Icon exactly when the icon path is not empty. When no
  value holds a line break, these are the lines of the text, in this order.
\<close>

theorem metadata_keys_in_order:
  "desktopEntry m destFile =
     renderFields (metadataFields (appName m) destFile (categories m) (description m) (iconPath m)) \<and>
   map fst (metadataFields (appName m) destFile (categories m) (description m) (iconPath m)) =
     [''Name'', ''Exec'', ''Type'', ''Categories''] @
     (if description m \<noteq> [] then [''Comment''] else []) @
     (if iconPath m \<noteq> [] then [''Icon''] else []) \<and>
   map_of (metadataFields (appName m) destFile (categories m) (description m) (iconPath m))
     ''Type'' = Some ''Application'' \<and>
   (noNewline (appName m) \<and> noNewline destFile \<and> noNewline (categories m) \<and>
    noNewline (description m) \<and> noNewline (iconPath m) \<longrightarrow>
      Split (desktopEntry m destFile) (CHR 0x0A) =
        [''[Desktop Entry]'', ''Name='' @ appName m, ''Exec='' @ destFile, ''Type=Application'',
         ''Categories='' @ categories m] @
        (if description m \<noteq> [] then [''Comment='' @ description m] else []) @
        (if iconPath m \<noteq> [] then [''Icon='' @ iconPath m] else []) @ [[]])"
proof (intro conjI impI)
  show "desktopEntry m destFile =
     renderFields (metadataFields (appName m) destFile (categories m) (description m) (iconPath m))"
    by (rule desktopEntry_layout)
  show "map fst (metadataFields (appName m) destFile (categories m) (description m) (iconPath m)) =
     [''Name'', ''Exec'', ''Type'', ''Categories''] @
     (if description m \<noteq> [] then [''Comment''] else []) @
     (if iconPath m \<noteq> [] then [''Icon''] else [])"
    by (simp add: metadataFields_def)
  show "map_of (metadataFields (appName m) destFile (categories m) (description m) (iconPath m))
     ''Type'' = Some ''Application''"
    by (simp add: metadataFields_def)
next
  assume "noNewline (appName m) \<and> noNewline destFile \<and> noNewline (categories m) \<and>
    noNewline (description m) \<and> noNewline (iconPath m)"
  then show "Split (desktopEntry m destFile) (CHR 0x0A) =
        [''[Desktop Entry]'', ''Name='' @ appName m, ''Exec='' @ destFile, ''Type=Application'',
         ''Categories='' @ categories m] @
        (if description m \<noteq> [] then [''Comment='' @ description m] else []) @
        (if iconPath m \<noteq> [] then [''Icon='' @ iconPath m] else []) @ [[]]"
    using desktopEntry_lines by blast
qed

theorem metadata_keys_in_order_witness:
  "noNewline (appName sampleDescribed) \<and>
   noNewline ''/home/u/Apps/App.bundle'' \<and>
   noNewline (categories sampleDescribed) \<and>
   noNewline (description sampleDescribed) \<and>
   noNewline (iconPath sampleDescribed) \<and>
   Split (desktopEntry sampleDescribed ''/home/u/Apps/App.bundle'') (CHR 0x0A) =
     [''[Desktop Entry]'', ''Name=My App'', ''Exec=/home/u/Apps/App.bundle'', ''Type=Application'',
      ''Categories=Utility;'', ''Comment=A demo'', []]"
proof -
  have vals: "appName sampleDescribed = ''My App''" "categories sampleDescribed = ''Utility;''"
    "description sampleDescribed = ''A demo''" "iconPath sampleDescribed = []"
    by (simp_all add: sampleDescribed_def sampleInstall_def zeroModel_def)
  have clean: "noNewline (appName sampleDescribed)" "noNewline ''/home/u/Apps/App.bundle''"
    "noNewline (categories sampleDescribed)" "noNewline (description sampleDescribed)"
    "noNewline (iconPath sampleDescribed)"
    by (simp_all add: vals noNewline_def)
  note inst = metadata_keys_in_order [of sampleDescribed "''/home/u/Apps/App.bundle''"]
  from inst clean
  have "Split (desktopEntry sampleDescribed ''/home/u/Apps/App.bundle'') (CHR 0x0A) =
        [''[Desktop Entry]'', ''Name='' @ appName sampleDescribed,
         ''Exec='' @ ''/home/u/Apps/App.bundle'', ''Type=Application'',
         ''Categories='' @ categories sampleDescribed] @
        (if description sampleDescribed \<noteq> [] then [''Comment='' @ description sampleDescribed]
         else []) @
        (if iconPath sampleDescribed \<noteq> [] then [''Icon='' @ iconPath sampleDescribed] else []) @
        [[]]"
    by blast
  then have "Split (desktopEntry sampleDescribed ''/home/u/Apps/App.bundle'') (CHR 0x0A) =
     [''[Desktop Entry]'', ''Name=My App'', ''Exec=/home/u/Apps/App.bundle'', ''Type=Application'',
      ''Categories=Utility;'', ''Comment=A demo'', []]"
    by (simp add: vals)
  with clean show ?thesis by (intro conjI)
qed

section \<open>Properties of the wizard steps\<close>

lemma install_keeps_categories: "categories (fst (install w m)) = categories m"
  by (simp add: install_def Let_def split: sum.splits option.splits)

lemma HasSuffix_semicolon: "HasSuffix s '';'' \<longleftrightarrow> s \<noteq> [] \<and> last s = CHR '';''"
proof (cases s rule: rev_cases)
  case Nil
  then show ?thesis by (simp add: HasSuffix_def)
next
  case (snoc ys y)
  then show ?thesis by (auto simp: HasSuffix_def)
qed

text \<open>
  Claim C5: confirming the Categories step stores \<open>Utility;\<close> for an empty input,
  the input itself when it ends in a semicolon, and the input with one semicolon appended
  otherwise.
\<close>

theorem categories_normalised:
  assumes "currentStep m = stepCategories"
  shows "\<exists>m' c changes. Update w m (KeyMsg ''enter'') = Inr (m', c, changes) \<and>
           categories m' =
             (if input m = [] then ''Utility;''
              else if last (input m) = CHR '';'' then input m
              else input m @ '';'')"
proof -
  let ?m1 = "if input m = [] then m\<lparr>input := ''Utility;''\<rparr> else m"
  let ?m2 = "if \<not> HasSuffix (input ?m1) '';'' then ?m1\<lparr>input := input ?m1 @ '';''\<rparr> else ?m1"
  let ?m3 = "?m2\<lparr>categories := input ?m2, currentStep := stepProcessing, input := []\<rparr>"
  have upd: "Update w m (KeyMsg ''enter'') = Inr (install w ?m3)"
    using assms by (simp add: Update_def isFileBrowserStep_def handleEnter_def Let_def)
  have cat: "categories (fst (install w ?m3)) =
             (if input m = [] then ''Utility;''
              else if last (input m) = CHR '';'' then input m
              else input m @ '';'')"
    by (simp add: install_keeps_categories HasSuffix_semicolon)
  obtain m' c changes where r: "install w ?m3 = (m', c, changes)"
    by (cases "install w ?m3") auto
  with cat have "categories m' = (if input m = [] then ''Utility;''
              else if last (input m) = CHR '';'' then input m
              else input m @ '';'')" by simp
  with upd r show ?thesis by simp
qed

theorem categories_normalised_witness:
  "currentStep sampleCategories = stepCategories \<and>
   (\<exists>m' c changes.
      Update (sampleWorld False False []) sampleCategories (KeyMsg ''enter'') = Inr (m', c, changes) \<and>
      categories m' = ''Game;'')"
proof -
  have st: "currentStep sampleCategories = stepCategories"
    by (simp add: sampleCategories_def)
  have inp: "input sampleCategories = ''Game''"
    by (simp add: sampleCategories_def)
  from categories_normalised [OF st, of "sampleWorld False False []"] st
  show ?thesis by (simp add: inp)
qed

lemma findAppImageDir_None:
  "\<forall>line \<in> set ls. \<not> HasPrefix line ''APPIMAGE_DIR='' \<Longrightarrow> findAppImageDir ls = None"
  by (induction ls) auto

lemma loadConfig_key_absent:
  assumes "ReadFile w p = Inr data"
    and "\<forall>line \<in> set (Split data (CHR 0x0A)). \<not> HasPrefix line ''APPIMAGE_DIR=''"
  shows "loadConfig w p = Inl ''APPIMAGE_DIR not found in config''"
  using assms findAppImageDir_None by (simp add: loadConfig_def)

text \<open>
  Claim C9: a bundle file is selected in the file browser, the configuration file exists
  and can be read, and none of its lines starts with \<open>APPIMAGE_DIR=\<close>. Then the
  wizard is in the Error step with a message that is not empty (and the bundle path is
  recorded).
\<close>

theorem unparsable_config_ends_in_error:
  assumes "currentStep m = stepFileBrowser"
    and "0 \<le> cursor m" and "cursor m < int (length (files m))"
    and "\<not> isDir (files m ! nat (cursor m))"
    and "\<not> StatNotExist w (configPath m)"
    and "ReadFile w (configPath m) = Inr data"
    and "\<forall>line \<in> set (Split data (CHR 0x0A)). \<not> HasPrefix line ''APPIMAGE_DIR=''"
  shows "\<exists>m'. Update w m (KeyMsg ''enter'') = Inr (m', NoCmd, []) \<and>
           currentStep m' = stepError \<and>
           error m' = ''Failed to load config: APPIMAGE_DIR not found in config'' \<and>
           error m' \<noteq> [] \<and>
           appImagePath m' = path (files m ! nat (cursor m))"
proof -
  have nonempty: "files m \<noteq> []" using assms(2,3) by auto
  have cfg: "loadConfig w (configPath m) = Inl ''APPIMAGE_DIR not found in config''"
    using loadConfig_key_absent [OF assms(6,7)] .
  have sel: "handleEnter w (m\<lparr>searchMode := b\<rparr>) =
          Inr (checkConfig w (m\<lparr>searchMode := b, appImagePath := path (files m ! nat (cursor m))\<rparr>), NoCmd, [])" for b
    using assms(1-4) nonempty by (simp add: handleEnter_def Let_def)
  have chk: "checkConfig w (m\<lparr>searchMode := b, appImagePath := x\<rparr>) =
          m\<lparr>searchMode := b, appImagePath := x, currentStep := stepError,
            error := ''Failed to load config: APPIMAGE_DIR not found in config''\<rparr>" for b x
    using assms(5) cfg by (simp add: checkConfig_def)
  have "Update w m (KeyMsg ''enter'') = handleEnter w (m\<lparr>searchMode := False\<rparr>)"
  proof (cases "searchMode m")
    case True
    with assms(1) show ?thesis
      by (simp add: Update_def isFileBrowserStep_def handleFileBrowserKeys_def)
  next
    case False
    then have same: "m\<lparr>searchMode := False\<rparr> = m" by simp
    show ?thesis
      unfolding same using False assms(1)
      by (simp add: Update_def isFileBrowserStep_def handleFileBrowserKeys_def)
  qed
  then show ?thesis by (simp add: sel chk)
qed

theorem unparsable_config_ends_in_error_witness:
  "currentStep sampleSelect = stepFileBrowser \<and>
   0 \<le> cursor sampleSelect \<and>
   cursor sampleSelect < int (length (files sampleSelect)) \<and>
   \<not> isDir (files sampleSelect ! nat (cursor sampleSelect)) \<and>
   \<not> StatNotExist (sampleWorld False True ''DIR=/opt'') (configPath sampleSelect) \<and>
   ReadFile (sampleWorld False True ''DIR=/opt'') (configPath sampleSelect) = Inr ''DIR=/opt'' \<and>
   list_all (\<lambda>line. \<not> HasPrefix line ''APPIMAGE_DIR='') (Split ''DIR=/opt'' (CHR 0x0A)) \<and>
   (\<exists>m'. Update (sampleWorld False True ''DIR=/opt'') sampleSelect (KeyMsg ''enter'') =
            Inr (m', NoCmd, []) \<and>
          currentStep m' = stepError \<and>
          error m' = ''Failed to load config: APPIMAGE_DIR not found in config'' \<and>
          appImagePath m' = ''/home/u/Tool.AppImage'')"
proof -
  let ?w = "sampleWorld False True ''DIR=/opt''"
  have h1: "currentStep sampleSelect = stepFileBrowser"
    and h2: "0 \<le> cursor sampleSelect"
    and h3: "cursor sampleSelect < int (length (files sampleSelect))"
    and h4: "\<not> isDir (files sampleSelect ! nat (cursor sampleSelect))"
    and sel: "path (files sampleSelect ! nat (cursor sampleSelect)) = ''/home/u/Tool.AppImage''"
    by (simp_all add: sampleSelect_def sampleBrowser_def zeroModel_def sampleListing_def)
  have h5: "\<not> StatNotExist ?w (configPath sampleSelect)"
    and h6: "ReadFile ?w (configPath sampleSelect) = Inr ''DIR=/opt''"
    by (simp_all add: sampleWorld_def)
  have h7': "list_all (\<lambda>line. \<not> HasPrefix line ''APPIMAGE_DIR='') (Split ''DIR=/opt'' (CHR 0x0A))"
    by (simp add: HasPrefix_def)
  then have h7: "\<forall>line \<in> set (Split ''DIR=/opt'' (CHR 0x0A)). \<not> HasPrefix line ''APPIMAGE_DIR=''"
    by (simp only: list_all_iff)
  from unparsable_config_ends_in_error [OF h1 h2 h3 h4 h5 h6 h7] sel
  have "\<exists>m'. Update ?w sampleSelect (KeyMsg ''enter'') = Inr (m', NoCmd, []) \<and>
          currentStep m' = stepError \<and>
          error m' = ''Failed to load config: APPIMAGE_DIR not found in config'' \<and>
          appImagePath m' = ''/home/u/Tool.AppImage''"
    by auto
  with h1 h2 h3 h4 h5 h6 h7' show ?thesis by (intro conjI)
qed

section \<open>Properties of the file browser\<close>

lemma isImageFile_iff: "isImageFile w nm \<longleftrightarrow> (\<exists>ext \<in> set imageExtensions. HasSuffix (ToLower w nm) ext)"
  by (simp add: isImageFile_def imageExtensions_def Let_def)

lemma listEntries_filtered:
  "e \<in> set (listEntries w iconMode dir entries) \<Longrightarrow>
     name e \<in> Name ` set entries \<and> (\<not> isDir e \<longrightarrow> passesFilter w iconMode (name e))"
  by (induction entries) (auto simp: Let_def passesFilter_def isImageFile_iff split: if_splits)

lemma loadDirectoryWithFilter_listing:
  "allFiles (loadDirectoryWithFilter w iconMode m) =
     (case ReadDir w (currentDir m) of
        Inl e \<Rightarrow> []
      | Inr entries \<Rightarrow>
          (if currentDir m \<noteq> ''/'' then [parentEntry (currentDir m)] else []) @
          listEntries w iconMode (currentDir m) entries)"
  by (simp add: loadDirectoryWithFilter_def Let_def parentEntry_def split: sum.splits)

lemma loadDirectoryWithFilter_state:
  "files (loadDirectoryWithFilter w iconMode m) = allFiles (loadDirectoryWithFilter w iconMode m)"
  "cursor (loadDirectoryWithFilter w iconMode m) = 0"
  "searchMode (loadDirectoryWithFilter w iconMode m) = False"
  "searchQuery (loadDirectoryWithFilter w iconMode m) = []"
  "currentDir (loadDirectoryWithFilter w iconMode m) = currentDir m"
  "currentStep (loadDirectoryWithFilter w iconMode m) = currentStep m"
  "input (loadDirectoryWithFilter w iconMode m) = input m"
  by (simp_all add: loadDirectoryWithFilter_def Let_def split: sum.splits)

text \<open>
  Claim C6: provided the directory read does not itself return an entry named
  \<open>..\<close> (Go's \<open>os.ReadDir\<close> never does), every listing is the parent entry, present
  when the directory is not \<open>/\<close>, followed by the entries kept; an entry named
  \<open>..\<close> is the first one and the directory is then not \<open>/\<close>; and every entry that
  is not a directory has a name that passes the active filter: lower-cased by
  \<open>strings.ToLower\<close>, it ends in \<open>.appimage\<close>, or in one of the image extensions.
  A directory that cannot be read gives the empty listing.
\<close>

theorem listing_parent_first_files_filtered:
  assumes "case ReadDir w (currentDir m) of
             Inl e \<Rightarrow> True
           | Inr entries \<Rightarrow> ''..'' \<notin> Name ` set entries"
  shows "files (loadDirectoryWithFilter w iconMode m) =
           (case ReadDir w (currentDir m) of
              Inl e \<Rightarrow> []
            | Inr entries \<Rightarrow>
                (if currentDir m \<noteq> ''/'' then [parentEntry (currentDir m)] else []) @
                listEntries w iconMode (currentDir m) entries) \<and>
         (\<forall>i < length (files (loadDirectoryWithFilter w iconMode m)).
            name (files (loadDirectoryWithFilter w iconMode m) ! i) = ''..'' \<longrightarrow>
              i = 0 \<and> currentDir m \<noteq> ''/'') \<and>
         (\<forall>e \<in> set (files (loadDirectoryWithFilter w iconMode m)).
            \<not> isDir e \<longrightarrow> passesFilter w iconMode (name e))"
proof (cases "ReadDir w (currentDir m)")
  case (Inl e)
  then show ?thesis
    by (simp add: loadDirectoryWithFilter_state loadDirectoryWithFilter_listing)
next
  case (Inr entries)
  let ?rest = "listEntries w iconMode (currentDir m) entries"
  have nodots: "''..'' \<notin> Name ` set entries" using assms Inr by simp
  have rest: "\<And>e. e \<in> set ?rest \<Longrightarrow> name e \<noteq> ''..'' \<and> (\<not> isDir e \<longrightarrow> passesFilter w iconMode (name e))"
    using listEntries_filtered nodots by metis
  have fs: "files (loadDirectoryWithFilter w iconMode m) =
              (if currentDir m \<noteq> ''/'' then [parentEntry (currentDir m)] else []) @ ?rest"
    using Inr by (simp add: loadDirectoryWithFilter_state loadDirectoryWithFilter_listing)
  have first: "\<forall>i < length (files (loadDirectoryWithFilter w iconMode m)).
            name (files (loadDirectoryWithFilter w iconMode m) ! i) = ''..'' \<longrightarrow>
              i = 0 \<and> currentDir m \<noteq> ''/''"
  proof (intro allI impI)
    fix i
    assume i: "i < length (files (loadDirectoryWithFilter w iconMode m))"
      and nm: "name (files (loadDirectoryWithFilter w iconMode m) ! i) = ''..''"
    show "i = 0 \<and> currentDir m \<noteq> ''/''"
    proof (cases "currentDir m = ''/''")
      case True
      with fs i have "files (loadDirectoryWithFilter w iconMode m) ! i \<in> set ?rest"
        by (simp add: nth_mem del: One_nat_def)
      with rest nm show ?thesis by blast
    next
      case False
      show ?thesis
      proof (cases i)
        case 0
        with False show ?thesis by simp
      next
        case (Suc j)
        with fs i False have "files (loadDirectoryWithFilter w iconMode m) ! i \<in> set ?rest"
          by simp
        with rest nm show ?thesis by blast
      qed
    qed
  qed
  have filt: "\<forall>e \<in> set (files (loadDirectoryWithFilter w iconMode m)).
            \<not> isDir e \<longrightarrow> passesFilter w iconMode (name e)"
    using rest by (auto simp: fs parentEntry_def)
  have shape: "files (loadDirectoryWithFilter w iconMode m) =
           (case ReadDir w (currentDir m) of
              Inl e \<Rightarrow> []
            | Inr entries \<Rightarrow>
                (if currentDir m \<noteq> ''/'' then [parentEntry (currentDir m)] else []) @
                listEntries w iconMode (currentDir m) entries)"
    using Inr by (simp add: loadDirectoryWithFilter_state loadDirectoryWithFilter_listing)
  from shape first filt show ?thesis by (intro conjI)
qed

theorem listing_parent_first_files_filtered_witness:
  "(case ReadDir (sampleWorld False True []) (currentDir sampleBrowser) of
      Inl e \<Rightarrow> True
    | Inr entries \<Rightarrow> ''..'' \<notin> Name ` set entries) \<and>
   files (loadDirectoryWithFilter (sampleWorld False True []) False sampleBrowser) = sampleListing \<and>
   name (sampleListing ! 0) = ''..'' \<and>
   currentDir sampleBrowser \<noteq> ''/'' \<and>
   \<not> isDir (sampleListing ! 2) \<and>
   passesFilter (sampleWorld False True []) False (name (sampleListing ! 2))"
proof -
  let ?w = "sampleWorld False True []"
  have hyp: "case ReadDir ?w (currentDir sampleBrowser) of
               Inl e \<Rightarrow> True
             | Inr entries \<Rightarrow> ''..'' \<notin> Name ` set entries"
    by (simp add: sampleWorld_def sampleEntries_def)
  have listing: "(case ReadDir ?w (currentDir sampleBrowser) of
              Inl e \<Rightarrow> []
            | Inr entries \<Rightarrow>
                (if currentDir sampleBrowser \<noteq> ''/'' then [parentEntry (currentDir sampleBrowser)]
                 else []) @
                listEntries ?w False (currentDir sampleBrowser) entries) = sampleListing"
    by code_simp
  have third: "\<not> isDir (sampleListing ! 2)" "name (sampleListing ! 0) = ''..''"
    "sampleListing ! 2 \<in> set sampleListing" "0 < length sampleListing"
    by (simp_all add: sampleListing_def)
  note inst = listing_parent_first_files_filtered [OF hyp, of False]
  from inst listing
  have fs: "files (loadDirectoryWithFilter ?w False sampleBrowser) = sampleListing" by simp
  from inst fs third have root: "currentDir sampleBrowser \<noteq> ''/''" by auto
  from inst fs third have pass: "passesFilter ?w False (name (sampleListing ! 2))" by auto
  from hyp fs third root pass show ?thesis by (intro conjI)
qed

text \<open>
  Claim C10: confirming \<open>b\<close> or \<open>B\<close> in the Icon step enters the icon browser in the
  user's home directory, listed with the image filter, with the pending input cleared; the
  directory browsed earlier plays no part in the result.
\<close>

theorem browse_command_resets_to_home:
  assumes "currentStep m = stepIcon" and "input m = ''b'' \<or> input m = ''B''"
  shows "\<exists>m'. Update w m (KeyMsg ''enter'') = Inr (m', NoCmd, []) \<and>
           m' = loadDirectoryWithFilter w True
                  (m\<lparr>currentDir := UserHomeDir w, currentStep := stepIconBrowser, input := []\<rparr>) \<and>
           currentStep m' = stepIconBrowser \<and>
           currentDir m' = UserHomeDir w \<and>
           input m' = [] \<and>
           files m' = allFiles m' \<and>
           allFiles m' =
             (case ReadDir w (UserHomeDir w) of
                Inl e \<Rightarrow> []
              | Inr entries \<Rightarrow>
                  (if UserHomeDir w \<noteq> ''/'' then [parentEntry (UserHomeDir w)] else []) @
                  listEntries w True (UserHomeDir w) entries) \<and>
           Update w (m\<lparr>currentDir := earlier\<rparr>) (KeyMsg ''enter'') = Inr (m', NoCmd, [])"
proof -
  have u: "Update w (m\<lparr>currentDir := d\<rparr>) (KeyMsg ''enter'') =
        Inr (loadDirectoryWithFilter w True
               (m\<lparr>currentDir := UserHomeDir w, currentStep := stepIconBrowser, input := []\<rparr>),
             NoCmd, [])" for d
    using assms
    by (auto simp: Update_def isFileBrowserStep_def handleEnter_def loadIconDirectory_def)
  from u [of "currentDir m"] have u0: "Update w m (KeyMsg ''enter'') =
        Inr (loadDirectoryWithFilter w True
               (m\<lparr>currentDir := UserHomeDir w, currentStep := stepIconBrowser, input := []\<rparr>),
             NoCmd, [])" by simp
  show ?thesis
    unfolding u0 u
    by (simp add: loadDirectoryWithFilter_state loadDirectoryWithFilter_listing
        split: sum.splits)
qed

theorem browse_command_resets_to_home_witness:
  "currentStep sampleIconStep = stepIcon \<and>
   input sampleIconStep = ''b'' \<and>
   currentDir sampleIconStep = ''/media/usb'' \<and>
   (\<exists>m'. Update (sampleWorld False True []) sampleIconStep (KeyMsg ''enter'') = Inr (m', NoCmd, []) \<and>
          currentStep m' = stepIconBrowser \<and>
          currentDir m' = ''/home/u'' \<and>
          input m' = [] \<and>
          files m' = sampleIcons)"
proof -
  let ?w = "sampleWorld False True []"
  have h1: "currentStep sampleIconStep = stepIcon" and inp: "input sampleIconStep = ''b''"
    and dir: "currentDir sampleIconStep = ''/media/usb''"
    by (simp_all add: sampleIconStep_def)
  have h2: "input sampleIconStep = ''b'' \<or> input sampleIconStep = ''B''" using inp by simp
  have home: "UserHomeDir ?w = ''/home/u''" by (simp add: sampleWorld_def)
  have listing: "(case ReadDir ?w ''/home/u'' of
                Inl e \<Rightarrow> []
              | Inr entries \<Rightarrow>
                  (if ''/home/u'' \<noteq> ''/'' then [parentEntry ''/home/u''] else []) @
                  listEntries ?w True ''/home/u'' entries) = sampleIcons"
    by code_simp
  from browse_command_resets_to_home [OF h1 h2, of ?w "currentDir sampleIconStep"]
  obtain m' where m': "Update ?w sampleIconStep (KeyMsg ''enter'') = Inr (m', NoCmd, [])"
    "currentStep m' = stepIconBrowser" "currentDir m' = UserHomeDir ?w" "input m' = []"
    "files m' = allFiles m'"
    "allFiles m' =
             (case ReadDir ?w (UserHomeDir ?w) of
                Inl e \<Rightarrow> []
              | Inr entries \<Rightarrow>
                  (if UserHomeDir ?w \<noteq> ''/'' then [parentEntry (UserHomeDir ?w)] else []) @
                  listEntries ?w True (UserHomeDir ?w) entries)"
    by blast
  from m'(5,6) have "files m' = sampleIcons" unfolding home listing by simp
  with m'(1-4) home have "\<exists>m'. Update ?w sampleIconStep (KeyMsg ''enter'') = Inr (m', NoCmd, []) \<and>
          currentStep m' = stepIconBrowser \<and>
          currentDir m' = ''/home/u'' \<and>
          input m' = [] \<and>
          files m' = sampleIcons" by auto
  with h1 inp dir show ?thesis by (intro conjI)
qed

subsection \<open>The cursor\<close>

lemma cursorInRange_same:
  "files m' = files m \<Longrightarrow> cursor m' = cursor m \<Longrightarrow> cursorInRange m' = cursorInRange m"
  by (simp add: cursorInRange_def)

lemma cursorInRange_load: "cursorInRange (loadDirectoryWithFilter w iconMode m)"
  by (simp add: cursorInRange_def loadDirectoryWithFilter_state)

lemma cursorInRange_cursorUp: "cursorInRange m \<Longrightarrow> cursorInRange (cursorUp m)"
  by (auto simp: cursorInRange_def cursorUp_def split: if_splits)

lemma cursorInRange_cursorDown: "cursorInRange m \<Longrightarrow> cursorInRange (cursorDown m)"
  by (auto simp: cursorInRange_def cursorDown_def split: if_splits)

lemma cursorInRange_nonneg: "cursorInRange m \<Longrightarrow> 0 \<le> cursor m"
  by (simp add: cursorInRange_def split: if_splits)

lemma matchedEntries_Inr: "matchedEntries all is = Inr es \<Longrightarrow> length es = length is"
  by (induction "is" arbitrary: es) (auto split: if_splits sum.splits)

lemma matchedEntries_Inl:
  "matchedEntries all is = Inl p \<Longrightarrow> \<exists>i \<in> set is. \<not> (0 \<le> i \<and> i < int (length all))"
  by (induction "is") (auto split: if_splits sum.splits)

lemma applyFuzzySearch_cursor:
  assumes "0 \<le> cursor m" and "applyFuzzySearch w m = Inr m'"
  shows "cursorInRange m' \<and> allFiles m' = allFiles m"
  using assms
  by (auto simp: applyFuzzySearch_def cursorInRange_def Let_def split: if_splits sum.splits)

lemma applyFuzzySearch_panic:
  assumes "applyFuzzySearch w m = Inl p"
  shows "\<exists>i \<in> set (FindFrom w (searchQuery m) (map name (allFiles m))).
           \<not> (0 \<le> i \<and> i < int (length (allFiles m)))"
  using assms matchedEntries_Inl
  by (auto simp: applyFuzzySearch_def Let_def split: if_splits sum.splits)

lemma checkConfig_browser: "files (checkConfig w m) = files m" "cursor (checkConfig w m) = cursor m"
  by (simp_all add: checkConfig_def split: sum.splits)

lemma install_browser:
  "files (fst (install w m)) = files m" "cursor (fst (install w m)) = cursor m"
  by (simp_all add: install_def Let_def split: sum.splits option.splits)

lemma handleEnter_cursor:
  assumes "cursorInRange m"
  shows "\<exists>m' c changes. handleEnter w m = Inr (m', c, changes) \<and> cursorInRange m'"
proof (cases "currentStep m")
  case stepFileBrowser
  have rng: "files m \<noteq> [] \<Longrightarrow> 0 \<le> cursor m \<and> cursor m < int (length (files m))"
    using assms by (simp add: cursorInRange_def)
  have cc: "cursorInRange (checkConfig w (m\<lparr>appImagePath := x\<rparr>))" for x
    using assms cursorInRange_same [of "checkConfig w (m\<lparr>appImagePath := x\<rparr>)" m]
    by (simp add: checkConfig_browser)
  show ?thesis
    using stepFileBrowser assms rng
    by (simp add: handleEnter_def Let_def loadDirectory_def cursorInRange_load cc)
next
  case stepAppImageDir
  with assms show ?thesis
    by (auto simp: handleEnter_def Let_def cursorInRange_def split: option.splits prod.splits)
next
  case stepAppName
  with assms show ?thesis by (auto simp: handleEnter_def cursorInRange_def)
next
  case stepDescription
  with assms show ?thesis by (auto simp: handleEnter_def cursorInRange_def)
next
  case stepIcon
  have cc: "cursorInRange (m\<lparr>error := x\<rparr>)"
    "cursorInRange (m\<lparr>iconPath := y, currentStep := stepCategories,
                      input := ''Utility;'', error := []\<rparr>)" for x y
    using assms by (simp_all add: cursorInRange_def)
  show ?thesis
    using stepIcon
    by (simp add: handleEnter_def loadIconDirectory_def cursorInRange_load cc)
next
  case stepIconBrowser
  have rng: "files m \<noteq> [] \<Longrightarrow> 0 \<le> cursor m \<and> cursor m < int (length (files m))"
    using assms by (simp add: cursorInRange_def)
  have cc: "cursorInRange (m\<lparr>iconPath := x, currentStep := stepCategories,
                             input := ''Utility;'', error := []\<rparr>)" for x
    using assms by (simp add: cursorInRange_def)
  show ?thesis
    using stepIconBrowser assms rng
    by (simp add: handleEnter_def Let_def loadIconDirectory_def cursorInRange_load cc)
next
  case stepCategories
  let ?m1 = "if input m = [] then m\<lparr>input := ''Utility;''\<rparr> else m"
  let ?m2 = "if \<not> HasSuffix (input ?m1) '';'' then ?m1\<lparr>input := input ?m1 @ '';''\<rparr> else ?m1"
  let ?m3 = "?m2\<lparr>categories := input ?m2, currentStep := stepProcessing, input := []\<rparr>"
  have h: "handleEnter w m = Inr (install w ?m3)"
    using stepCategories by (simp add: handleEnter_def Let_def)
  have "cursorInRange (fst (install w ?m3)) = cursorInRange m"
    by (rule cursorInRange_same) (simp_all add: install_browser)
  with assms have "cursorInRange (fst (install w ?m3))" by simp
  then show ?thesis unfolding h by (cases "install w ?m3") auto
next
  case stepProcessing
  with assms show ?thesis by (simp add: handleEnter_def)
next
  case stepComplete
  with assms show ?thesis by (simp add: handleEnter_def)
next
  case stepError
  with assms show ?thesis by (simp add: handleEnter_def)
qed

lemma search_step_cursor:
  assumes "cursorInRange m"
  shows "case applyFuzzySearch w (m\<lparr>searchQuery := q\<rparr>) of
           Inl p \<Rightarrow> \<not> matcherInRange w m
         | Inr m1 \<Rightarrow> cursorInRange m1"
proof (cases "applyFuzzySearch w (m\<lparr>searchQuery := q\<rparr>)")
  case (Inl p)
  from applyFuzzySearch_panic [OF Inl] have "\<not> matcherInRange w m"
    by (auto simp: matcherInRange_def)
  with Inl show ?thesis by simp
next
  case (Inr m1)
  have "0 \<le> cursor (m\<lparr>searchQuery := q\<rparr>)"
    using cursorInRange_nonneg [OF assms] by simp
  from applyFuzzySearch_cursor [OF this Inr] Inr show ?thesis by simp
qed

lemma search_result_cursor:
  assumes "cursorInRange m"
  shows "case (case applyFuzzySearch w (m\<lparr>searchQuery := q\<rparr>) of
                 Inl p \<Rightarrow> Inl p
               | Inr m1 \<Rightarrow> Inr (m1, NoCmd, [])) of
           Inl p \<Rightarrow> \<not> matcherInRange w m
         | Inr (m', c, changes) \<Rightarrow> cursorInRange m'"
  using search_step_cursor [OF assms, of w q] by (simp split: sum.splits)

lemma handleEnter_result_cursor:
  assumes "cursorInRange m"
  shows "case handleEnter w m of
           Inl p \<Rightarrow> \<not> matcherInRange w m0
         | Inr (m', c, changes) \<Rightarrow> cursorInRange m'"
  using handleEnter_cursor [OF assms, of w] by auto

lemma handleFileBrowserKeys_cursor:
  assumes "cursorInRange m"
  shows "case handleFileBrowserKeys w m key of
           Inl p \<Rightarrow> \<not> matcherInRange w m
         | Inr (m', c, changes) \<Rightarrow> cursorInRange m'"
proof (cases "searchMode m")
  case True
  consider (quit) "key = ''ctrl+c''" | (esc) "key = ''esc''" | (enter) "key = ''enter''"
    | (backspace) "key = ''backspace''" | (up) "key = ''up''" | (down) "key = ''down''"
    | (other) "key \<noteq> ''ctrl+c''" "key \<noteq> ''esc''" "key \<noteq> ''enter''" "key \<noteq> ''backspace''"
        "key \<noteq> ''up''" "key \<noteq> ''down''"
    by blast
  then show ?thesis
  proof cases
    case quit
    with True assms show ?thesis by (simp add: handleFileBrowserKeys_def)
  next
    case esc
    have "cursorInRange (m\<lparr>searchMode := False, searchQuery := [], files := allFiles m,
                             fuzzyMatches := [], cursor := 0\<rparr>)"
      by (simp add: cursorInRange_def)
    with True esc show ?thesis by (simp add: handleFileBrowserKeys_def)
  next
    case enter
    have "cursorInRange (m\<lparr>searchMode := False\<rparr>)"
      using assms by (simp add: cursorInRange_def)
    from handleEnter_result_cursor [OF this, of w m] True enter
    show ?thesis by (simp add: handleFileBrowserKeys_def)
  next
    case backspace
    have "handleFileBrowserKeys w m key =
            (if length (searchQuery m) > 0
             then (case applyFuzzySearch w (m\<lparr>searchQuery := butlast (searchQuery m)\<rparr>) of
                     Inl p \<Rightarrow> Inl p
                   | Inr m1 \<Rightarrow> Inr (m1, NoCmd, []))
             else Inr (m, NoCmd, []))"
      using True backspace by (simp add: handleFileBrowserKeys_def)
    with search_result_cursor [OF assms, of w "butlast (searchQuery m)"] assms
    show ?thesis by (simp split: if_splits)
  next
    case up
    with True cursorInRange_cursorUp [OF assms] show ?thesis
      by (simp add: handleFileBrowserKeys_def)
  next
    case down
    with True cursorInRange_cursorDown [OF assms] show ?thesis
      by (simp add: handleFileBrowserKeys_def)
  next
    case other
    have "handleFileBrowserKeys w m key =
            (if length key = 1
             then (case applyFuzzySearch w (m\<lparr>searchQuery := searchQuery m @ key\<rparr>) of
                     Inl p \<Rightarrow> Inl p
                   | Inr m1 \<Rightarrow> Inr (m1, NoCmd, []))
             else Inr (m, NoCmd, []))"
      using True other by (simp add: handleFileBrowserKeys_def)
    with search_result_cursor [OF assms, of w "searchQuery m @ key"] assms
    show ?thesis by (simp split: if_splits)
  qed
next
  case False
  have slash: "cursorInRange (m\<lparr>searchMode := True, searchQuery := []\<rparr>)"
    using assms by (simp add: cursorInRange_def)
  show ?thesis
    using False assms slash handleEnter_result_cursor [OF assms, of w m]
    by (simp add: handleFileBrowserKeys_def cursorInRange_cursorUp cursorInRange_cursorDown
        Let_def loadDirectory_def loadIconDirectory_def cursorInRange_load)
qed

lemma Update_cursor:
  assumes "cursorInRange m"
  shows "case Update w m ms of
           Inl p \<Rightarrow> \<not> matcherInRange w m
         | Inr (m', c, changes) \<Rightarrow> cursorInRange m'"
proof (cases ms)
  case (KeyMsg key)
  have typed: "cursorInRange (m\<lparr>input := x\<rparr>)" for x
    using assms by (simp add: cursorInRange_def)
  show ?thesis
    using KeyMsg assms typed handleEnter_result_cursor [OF assms, of w m]
      handleFileBrowserKeys_cursor [OF assms, of w key]
    by (simp add: Update_def)
next
  case (installCompleteMsg err)
  have "cursorInRange (m\<lparr>currentStep := s\<rparr>)" "cursorInRange (m\<lparr>currentStep := s, error := e\<rparr>)" for s e
    using assms by (simp_all add: cursorInRange_def)
  with installCompleteMsg show ?thesis
    by (simp add: Update_def split: option.splits)
next
  case OtherMsg
  with assms show ?thesis by (simp add: Update_def)
qed

lemma empty_selection:
  assumes "isFileBrowserStep m" and "files m = []"
  shows "Update w m (KeyMsg ''enter'') =
           Inr (if searchMode m then m\<lparr>searchMode := False\<rparr> else m, NoCmd, [])"
  using assms
  by (auto simp: Update_def handleFileBrowserKeys_def handleEnter_def isFileBrowserStep_def)

lemma initialModel_cursor: "cursorInRange (initialModel w p)"
proof (cases "p = []")
  case True
  then show ?thesis
    by (simp add: initialModel_def Let_def loadDirectory_def cursorInRange_load)
next
  case False
  have "cursorInRange (checkConfig w m) = cursorInRange m" for m
    by (rule cursorInRange_same) (simp_all add: checkConfig_browser)
  with False show ?thesis
    by (simp add: initialModel_def Let_def) (simp add: cursorInRange_def zeroModel_def)
qed

text \<open>
  The cursor is in range in every state a session reaches from the initial model, and
  the sample matcher keeps its contract.
\<close>

lemma session_cursor:
  "cursorInRange m \<Longrightarrow> session m steps = Inr m' \<Longrightarrow> cursorInRange m'"
proof (induction steps arbitrary: m)
  case Nil
  then show ?case by simp
next
  case (Cons s steps)
  obtain w ms where s: "s = (w, ms)" by (cases s)
  from Cons.prems(2) s obtain m1 c changes where
    u: "Update w m ms = Inr (m1, c, changes)" and rest: "session m1 steps = Inr m'"
    by (auto split: sum.splits)
  from Update_cursor [OF Cons.prems(1), of w ms] u have "cursorInRange m1" by simp
  from Cons.IH [OF this rest] show ?case .
qed

lemma sample_matcherInRange: "matcherInRange (sampleWorld cpWorks helper conf) m"
  by (auto simp: matcherInRange_def sampleWorld_def)

text \<open>
  Claim C7, as amended. From a state whose cursor is in range, every message leaves
  the cursor in range: within the visible entries, or 0 when there are none. (\<open>Update\<close>
  panics only if the matcher returns an index outside the list it was given.) Enter on an
  empty visible list in a browser step navigates nowhere and selects nothing: outside
  search mode the state is unchanged, in search mode only \<open>searchMode\<close> changes, to
  false.
\<close>

theorem cursor_stays_in_range:
  assumes "cursorInRange m"
  shows "(case Update w m ms of
            Inl p \<Rightarrow> \<not> matcherInRange w m
          | Inr (m', c, changes) \<Rightarrow> cursorInRange m') \<and>
         (isFileBrowserStep m \<and> files m = [] \<longrightarrow>
            Update w m (KeyMsg ''enter'') =
              Inr (if searchMode m then m\<lparr>searchMode := False\<rparr> else m, NoCmd, []))"
  using Update_cursor [OF assms] empty_selection by blast

theorem cursor_stays_in_range_witness:
  "cursorInRange sampleBrowser \<and>
   Update (sampleWorld False True []) sampleBrowser (KeyMsg ''down'') =
     Inr (sampleBrowser\<lparr>cursor := 1\<rparr>, NoCmd, []) \<and>
   cursorInRange (sampleBrowser\<lparr>cursor := 1\<rparr>) \<and>
   cursorInRange sampleNoMatch \<and>
   isFileBrowserStep sampleNoMatch \<and>
   files sampleNoMatch = [] \<and>
   searchMode sampleNoMatch \<and>
   Update (sampleWorld False True []) sampleNoMatch (KeyMsg ''enter'') =
     Inr (sampleNoMatch\<lparr>searchMode := False\<rparr>, NoCmd, []) \<and>
   cursorInRange (sampleNoMatch\<lparr>searchMode := False\<rparr>)"
proof -
  let ?w = "sampleWorld False True []"
  have a: "cursorInRange sampleBrowser" by code_simp
  have down: "Update ?w sampleBrowser (KeyMsg ''down'') = Inr (sampleBrowser\<lparr>cursor := 1\<rparr>, NoCmd, [])"
    by code_simp
  from cursor_stays_in_range [OF a, of ?w "KeyMsg ''down''"] down
  have a': "cursorInRange (sampleBrowser\<lparr>cursor := 1\<rparr>)" by simp
  have b: "cursorInRange sampleNoMatch" by code_simp
  have st: "isFileBrowserStep sampleNoMatch" "files sampleNoMatch = []" "searchMode sampleNoMatch"
    by (simp_all add: sampleNoMatch_def sampleBrowser_def zeroModel_def isFileBrowserStep_def)
  note inst = cursor_stays_in_range [OF b, of ?w "KeyMsg ''enter''"]
  from inst st have enter: "Update ?w sampleNoMatch (KeyMsg ''enter'') =
     Inr (sampleNoMatch\<lparr>searchMode := False\<rparr>, NoCmd, [])" by simp
  from inst enter have b': "cursorInRange (sampleNoMatch\<lparr>searchMode := False\<rparr>)" by simp
  from a down a' b st enter b' show ?thesis by (intro conjI)
qed

text \<open>
  The state is not always unchanged: after \<open>/\<close> and \<open>z\<close> the search matches
  nothing, and Enter then leaves search mode, keeping the query and the empty list.
\<close>

lemma sample_initial: "initialModel (sampleWorld False True []) [] = sampleBrowser"
  by code_simp

lemma sample_slash:
  "Update (sampleWorld False True []) sampleBrowser (KeyMsg ''/'') = Inr (sampleBrowser\<lparr>searchMode := True, searchQuery := []\<rparr>, NoCmd, [])"
  by code_simp

lemma sample_z:
  "Update (sampleWorld False True []) (sampleBrowser\<lparr>searchMode := True, searchQuery := []\<rparr>) (KeyMsg ''z'') =
     Inr (sampleNoMatch, NoCmd, [])"
  by code_simp

theorem empty_selection_leaves_search_mode:
  "session (initialModel (sampleWorld False True []) [])
     [(sampleWorld False True [], KeyMsg ''/''), (sampleWorld False True [], KeyMsg ''z'')] = Inr sampleNoMatch \<and>
   files sampleNoMatch = [] \<and>
   Update (sampleWorld False True []) sampleNoMatch (KeyMsg ''enter'') =
     Inr (sampleNoMatch\<lparr>searchMode := False\<rparr>, NoCmd, []) \<and>
   sampleNoMatch\<lparr>searchMode := False\<rparr> \<noteq> sampleNoMatch"
proof -
  have a: "session (initialModel (sampleWorld False True []) [])
     [(sampleWorld False True [], KeyMsg ''/''), (sampleWorld False True [], KeyMsg ''z'')] = Inr sampleNoMatch"
    by (simp add: sample_initial sample_slash sample_z)
  have b: "files sampleNoMatch = []" by (simp add: sampleNoMatch_def)
  have c: "Update (sampleWorld False True []) sampleNoMatch (KeyMsg ''enter'') =
     Inr (sampleNoMatch\<lparr>searchMode := False\<rparr>, NoCmd, [])"
    by (simp add: Update_def isFileBrowserStep_def handleFileBrowserKeys_def handleEnter_def
        sampleNoMatch_def sampleBrowser_def zeroModel_def)
  have "searchMode (sampleNoMatch\<lparr>searchMode := False\<rparr>) \<noteq> searchMode sampleNoMatch"
    by (simp add: sampleNoMatch_def)
  then have d: "sampleNoMatch\<lparr>searchMode := False\<rparr> \<noteq> sampleNoMatch" by metis
  from a b c d show ?thesis by simp
qed









end
